theory Spec2Isabelle
  imports Complex_Main
begin

section \<open>Python values and exceptions\<close>

text \<open>
  An exception is its class name together with the text that \<^verbatim>\<open>str(e)\<close> returns.
  Apart from the \<^verbatim>\<open>SystemExit\<close> of the argument parser, which is raised before the
  \<^verbatim>\<open>try\<close> block is entered, every exception of the model is a subclass of
  \<^verbatim>\<open>Exception\<close>, so the handler of \<^verbatim>\<open>process.py\<close> line 145 catches it.
\<close>

datatype exn = Exception (exn_class: string) (str_exn: string)

text \<open>
  The values a setting can hold: what \<^verbatim>\<open>yaml.safe_load\<close> and the argument parser
  produce (scalars and lists), and the logger object stored under the key \<^verbatim>\<open>log\<close>.
\<close>

datatype pyval = VNone | VBool bool | VInt int | VStr string | VList "pyval list" | VLogger

text \<open>Python truthiness, as used by \<^verbatim>\<open>if config["create_csv"]:\<close> and by \<^verbatim>\<open>or\<close>.\<close>

fun truthy :: "pyval \<Rightarrow> bool" where
  "truthy VNone = False"
| "truthy (VBool b) = b"
| "truthy (VInt i) = (i \<noteq> 0)"
| "truthy (VStr s) = (s \<noteq> [])"
| "truthy (VList vs) = (vs \<noteq> [])"
| "truthy VLogger = True"

text \<open>The settings dictionary \<^verbatim>\<open>config\<close>; \<^verbatim>\<open>a | b\<close> on dictionaries is \<open>a ++ b\<close>.\<close>

type_synonym settings = "string \<rightharpoonup> pyval"

text \<open>Sequencing of computations that may raise.\<close>

definition and_then :: "exn + 'a \<Rightarrow> ('a \<Rightarrow> exn + 'b) \<Rightarrow> exn + 'b" where
  "and_then r f = (case r of Inl e \<Rightarrow> Inl e | Inr x \<Rightarrow> f x)"

text \<open>\<^verbatim>\<open>config[k]\<close>: KeyError when the key is absent (\<^verbatim>\<open>str\<close> of a KeyError is the repr of the key).\<close>

definition config_get :: "settings \<Rightarrow> string \<Rightarrow> exn + pyval" where
  "config_get config k =
     (case config k of
        None \<Rightarrow> Inl (Exception ''KeyError'' ([CHR 0x27] @ k @ [CHR 0x27]))
      | Some v \<Rightarrow> Inr v)"

text \<open>\<^verbatim>\<open>xs[i]\<close> for a non-negative index: IndexError when out of range.\<close>

definition py_nth :: "'a list \<Rightarrow> nat \<Rightarrow> exn + 'a" where
  "py_nth xs i =
     (if i < length xs then Inr (xs ! i)
      else Inl (Exception ''IndexError'' ''list index out of range''))"

section \<open>Strings and paths\<close>

text \<open>
  \<^verbatim>\<open>str.strip()\<close> removes leading and trailing whitespace. Characters are bytes here,
  so the whitespace is the ASCII one: space, tab, newline, vertical tab, form feed,
  carriage return and the four separators 0x1C..0x1F.
\<close>

definition py_isspace :: "char \<Rightarrow> bool" where
  "py_isspace c =
     (c \<in> set [CHR '' '', CHR 0x09, CHR 0x0A, CHR 0x0B, CHR 0x0C, CHR 0x0D,
               CHR 0x1C, CHR 0x1D, CHR 0x1E, CHR 0x1F])"

definition strip :: "string \<Rightarrow> string" where
  "strip s = rev (dropWhile py_isspace (rev (dropWhile py_isspace s)))"

definition startswith :: "string \<Rightarrow> string \<Rightarrow> bool" where
  "startswith s p = (take (length p) s = p)"

text \<open>\<^verbatim>\<open>s.split(",")\<close>: the fields between the separators; never an empty list.\<close>

fun str_split :: "char \<Rightarrow> string \<Rightarrow> string list" where
  "str_split sep [] = [[]]"
| "str_split sep (c # cs) =
     (if c = sep then [] # str_split sep cs
      else (case str_split sep cs of
              [] \<Rightarrow> [[c]]
            | field # fields \<Rightarrow> (c # field) # fields))"

text \<open>\<^verbatim>\<open>sep.join(xs)\<close>.\<close>

fun str_join :: "string \<Rightarrow> string list \<Rightarrow> string" where
  "str_join sep [] = []"
| "str_join sep [x] = x"
| "str_join sep (x # y # ys) = x @ sep @ str_join sep (y # ys)"

text \<open>\<^verbatim>\<open>str(n)\<close> for a non-negative integer, and \<^verbatim>\<open>"%0kd" % n\<close>.\<close>

definition digit_char :: "nat \<Rightarrow> char" where
  "digit_char d = ''0123456789'' ! d"

fun str_nat :: "nat \<Rightarrow> string" where
  "str_nat n = (if n < 10 then [digit_char n] else str_nat (n div 10) @ [digit_char (n mod 10)])"

declare str_nat.simps [simp del]

definition zero_padded :: "nat \<Rightarrow> nat \<Rightarrow> string" where
  "zero_padded k n = replicate (k - length (str_nat n)) (CHR ''0'') @ str_nat n"

text \<open>
  \<^verbatim>\<open>os.path.join(a, *p)\<close> (posixpath): a component starting with \<^verbatim>\<open>/\<close> discards what
  precedes it; otherwise components are joined by one separator.
\<close>

definition path_join2 :: "string \<Rightarrow> string \<Rightarrow> string" where
  "path_join2 path b =
     (if startswith b ''/'' then b
      else if path = [] \<or> last path = CHR ''/'' then path @ b
      else path @ ''/'' @ b)"

definition os_path_join :: "string \<Rightarrow> string list \<Rightarrow> string" where
  "os_path_join a p = foldl path_join2 a p"

text \<open>A component of \<^verbatim>\<open>os.path.join\<close> must be a string: TypeError otherwise.\<close>

definition as_str :: "pyval \<Rightarrow> exn + string" where
  "as_str v =
     (case v of
        VStr s \<Rightarrow> Inr s
      | _ \<Rightarrow> Inl (Exception ''TypeError'' ''expected str, bytes or os.PathLike object''))"

section \<open>Configuration resolver (lines 22 to 44)\<close>

definition defaults :: settings where
  "defaults =
     [''log'' \<mapsto> VLogger,
      ''model_channels'' \<mapsto> VStr ''rybg'',
      ''model_type'' \<mapsto> VStr ''mae_contrast_supcon_model'',
      ''update_model'' \<mapsto> VBool False,
      ''create_csv'' \<mapsto> VBool False]"

text \<open>
  The four \<^verbatim>\<open>add_argument\<close> declarations of lines 33 to 36: option strings, destination
  key, default and the \<^verbatim>\<open>type\<close> callable (\<^verbatim>\<open>str\<close> or \<^verbatim>\<open>bool\<close>).
\<close>

datatype argtype = type_str | type_bool

datatype argument =
  Argument (option_strings: "string list") (dest: string) (default_value: pyval)
    (arg_type: argtype)

definition argparser :: "argument list" where
  "argparser =
     [Argument [''-c'', ''--model_channels''] ''model_channels'' (VStr ''rybg'') type_str,
      Argument [''-t'', ''--model_type''] ''model_type''
        (VStr ''mae_contrast_supcon_model'') type_str,
      Argument [''-u'', ''--update_model''] ''update_model'' (VBool False) type_bool,
      Argument [''-csv'', ''--create_csv''] ''create_csv'' (VBool False) type_bool]"

text \<open>
  The \<^verbatim>\<open>type\<close> callable applied to the argument string: \<^verbatim>\<open>str(s)\<close> is \<open>s\<close>, and
  \<^verbatim>\<open>bool(s)\<close> is true exactly for a non-empty string.
\<close>

fun convert :: "argtype \<Rightarrow> string \<Rightarrow> pyval" where
  "convert type_str s = VStr s"
| "convert type_bool s = VBool (s \<noteq> [])"

text \<open>
  \<^verbatim>\<open>argparser.parse_args()\<close>. The command line is given as the option occurrences that
  argparse finds in \<^verbatim>\<open>sys.argv[1:]\<close>, in order, each with its argument string (the way
  the option is spelled on the command line, \<^verbatim>\<open>-u X\<close> or \<^verbatim>\<open>--update_model=X\<close>, is
  argparse's own business). The namespace starts from the declared defaults; each
  occurrence stores the converted argument under the destination, a later occurrence
  overwriting an earlier one; an unknown option ends the program with exit status 2.
\<close>

definition namespace_defaults :: settings where
  "namespace_defaults = map_of (map (\<lambda>a. (dest a, default_value a)) argparser)"

fun parse_args_from :: "settings \<Rightarrow> (string \<times> string) list \<Rightarrow> exn + settings" where
  "parse_args_from ns [] = Inr ns"
| "parse_args_from ns ((opt, arg) # rest) =
     (case find (\<lambda>a. opt \<in> set (option_strings a)) argparser of
        None \<Rightarrow> Inl (Exception ''SystemExit'' ''2'')
      | Some a \<Rightarrow> parse_args_from (ns(dest a \<mapsto> convert (arg_type a) arg)) rest)"

definition parse_args :: "(string \<times> string) list \<Rightarrow> exn + settings" where
  "parse_args argv = parse_args_from namespace_defaults argv"

text \<open>The value a key has in the parsed namespace \<^verbatim>\<open>args.__dict__\<close>.\<close>

definition parsed_value :: "string \<Rightarrow> (string \<times> string) list \<Rightarrow> exn + pyval option" where
  "parsed_value k argv = and_then (parse_args argv) (\<lambda>args. Inr (args k))"

text \<open>
  What \<^verbatim>\<open>yaml.safe_load\<close> returns for \<^verbatim>\<open>config.yaml\<close>: a mapping, or any other value
  (\<^verbatim>\<open>None\<close> for an empty file).
\<close>

datatype yaml_doc = YMapping settings | YOther pyval

fun yaml_truthy :: "yaml_doc \<Rightarrow> bool" where
  "yaml_truthy (YMapping m) = (m \<noteq> Map.empty)"
| "yaml_truthy (YOther v) = truthy v"

text \<open>
  Lines 22 to 44. \<open>argv\<close> is the command line after the script name, so
  \<^verbatim>\<open>len(sys.argv) > 1\<close> is \<open>argv \<noteq> []\<close>; \<open>config_yaml\<close> is the outcome of opening and
  loading \<^verbatim>\<open>config.yaml\<close> (an exception when the file is missing or malformed).
  Merging a truthy value that is not a mapping raises TypeError. None of these
  exceptions is handled.
\<close>

definition resolve_config ::
  "(string \<times> string) list \<Rightarrow> exn + yaml_doc \<Rightarrow> exn + settings" where
  "resolve_config argv config_yaml =
     and_then (if argv \<noteq> [] then and_then (parse_args argv) (\<lambda>args. Inr (defaults ++ args))
               else Inr defaults) (\<lambda>config.
     and_then config_yaml (\<lambda>config_contents.
       if yaml_truthy config_contents then
         (case config_contents of
            YMapping m \<Rightarrow> Inr (config ++ m)
          | YOther v \<Rightarrow>
              Inl (Exception ''TypeError'' ''unsupported operand type(s) for |''))
       else Inr config))"

text \<open>
  The argument strings that a command line passes to an option (given by its option
  strings), in order.
\<close>

definition args_passed :: "string list \<Rightarrow> (string \<times> string) list \<Rightarrow> string list" where
  "args_passed opts argv = map snd (filter (\<lambda>occurrence. fst occurrence \<in> set opts) argv)"

section \<open>The world the program acts on\<close>

text \<open>
  Probabilities and embedding values are floats in the source. The program only compares
  them, so the model takes them from any linear order \<open>'f\<close> (the floats without NaN);
  the examples use \<^typ>\<open>real\<close> and \<^typ>\<open>int\<close>.
\<close>

datatype 'f cell = CStr string | CInt nat | CNum 'f

text \<open>The pandas table \<^verbatim>\<open>df\<close>: its column labels and its rows, oldest first.\<close>

record 'f dataframe =
  columns :: "string list"
  rows :: "'f cell list list"

datatype level = INFO | WARNING | ERROR

datatype logmsg = Text string | Dump settings

text \<open>
  The state the program reads and changes: the binary files on disk (the weight files),
  and one trace for each kind of effect, oldest first: the URLs requested with
  \<^verbatim>\<open>requests.get\<close>, the paths passed to \<^verbatim>\<open>imread\<close>, the directories passed to
  \<^verbatim>\<open>os.makedirs\<close>, the output stems passed to \<^verbatim>\<open>inference.run_model\<close>, the log
  records, and the table that \<^verbatim>\<open>df.to_csv("result.csv")\<close> wrote last (\<open>None\<close> as long as
  it has not run). The weight files are always named \<^verbatim>\<open>classifier.pth\<close> or
  \<^verbatim>\<open>encoder.pth\<close>, so they are kept apart from \<^verbatim>\<open>result.csv\<close>.
\<close>

record ('b, 'f) world =
  files :: "string \<rightharpoonup> 'b"
  requests :: "string list"
  imreads :: "string list"
  made_dirs :: "string list"
  model_runs :: "string list"
  log_lines :: "(level \<times> logmsg) list"
  result_csv :: "'f dataframe option"

text \<open>
  What the program does not define itself: the network, the file system's answers, the
  files beside the script, and the \<^verbatim>\<open>inference\<close> module. Each call may raise.
  \<^item> \<open>requests_get url\<close>: status code and body of the response;
  \<^item> \<open>open_write path\<close>: the exception that opening \<open>path\<close> for writing raises, if any;
  \<^item> \<open>models_urls\<close>: \<^verbatim>\<open>models_urls.yaml\<close> opened and loaded;
  \<^item> \<open>load_model\<close>: lines 79 to 83 (the model configuration file read, the classifier
    built, the two weight files loaded), from the files on disk and the three paths;
  \<^item> \<open>path_list\<close>: \<open>None\<close> when \<^verbatim>\<open>./path_list.csv\<close> does not exist, else the outcome of
    opening it and its lines (each with its line end);
  \<^item> \<open>makedirs\<close>, \<open>imread\<close>, \<open>run_model\<close> (which returns embedding and probabilities),
    and the table \<^verbatim>\<open>inference.CLASS2NAME\<close>;
  \<^item> \<open>start_time\<close>, \<open>end_time\<close>: the two formatted readings of the clock.
\<close>

record ('b, 'f, 'img, 'm) env =
  requests_get :: "string \<Rightarrow> exn + nat \<times> 'b"
  open_write :: "string \<Rightarrow> exn option"
  models_urls :: "exn + (string \<rightharpoonup> (string \<rightharpoonup> (string \<rightharpoonup> string)))"
  load_model :: "(string \<rightharpoonup> 'b) \<Rightarrow> string \<Rightarrow> string \<Rightarrow> string \<Rightarrow> exn + 'm"
  path_list :: "(exn + string list) option"
  makedirs :: "string \<Rightarrow> exn option"
  imread :: "string \<Rightarrow> exn + 'img"
  run_model :: "'m \<Rightarrow> 'img list list \<Rightarrow> string \<Rightarrow> exn + 'f list \<times> 'f list"
  CLASS2NAME :: "nat \<rightharpoonup> string"
  start_time :: string
  end_time :: string

text \<open>
  A statement sequence is a function from the world to an outcome (an exception or a
  value) and the world it leaves behind; an exception skips the statements after it.
\<close>

type_synonym ('a, 'w) prog = "'w \<Rightarrow> (exn + 'a) \<times> 'w"

definition return :: "'a \<Rightarrow> ('a, 'w) prog" where
  "return x w = (Inr x, w)"

definition lift :: "exn + 'a \<Rightarrow> ('a, 'w) prog" where
  "lift r w = (r, w)"

definition bind :: "('a, 'w) prog \<Rightarrow> ('a \<Rightarrow> ('b, 'w) prog) \<Rightarrow> ('b, 'w) prog" where
  "bind m f w = (case m w of (Inl e, w') \<Rightarrow> (Inl e, w') | (Inr x, w') \<Rightarrow> f x w')"

text \<open>\<^verbatim>\<open>config["log"].info(msg)\<close>, \<^verbatim>\<open>.warning(msg)\<close>, \<^verbatim>\<open>.error(msg)\<close>.\<close>

definition log_to :: "level \<Rightarrow> logmsg \<Rightarrow> (unit, ('b, 'f) world) prog" where
  "log_to lvl msg w = (Inr (), w\<lparr>log_lines := log_lines w @ [(lvl, msg)]\<rparr>)"

definition isfile :: "string \<Rightarrow> (bool, ('b, 'f) world) prog" where
  "isfile path w = (Inr (files w path \<noteq> None), w)"

definition http_get ::
  "('b, 'f, 'img, 'm) env \<Rightarrow> string \<Rightarrow> (nat \<times> 'b, ('b, 'f) world) prog" where
  "http_get env url w = (requests_get env url, w\<lparr>requests := requests w @ [url]\<rparr>)"

text \<open>\<^verbatim>\<open>with open(path, 'wb') as f: f.write(content)\<close>.\<close>

definition write_file ::
  "('b, 'f, 'img, 'm) env \<Rightarrow> string \<Rightarrow> 'b \<Rightarrow> (unit, ('b, 'f) world) prog" where
  "write_file env path content w =
     (case open_write env path of
        Some e \<Rightarrow> (Inl e, w)
      | None \<Rightarrow> (Inr (), w\<lparr>files := (files w)(path \<mapsto> content)\<rparr>))"

definition makedirs_io ::
  "('b, 'f, 'img, 'm) env \<Rightarrow> string \<Rightarrow> (unit, ('b, 'f) world) prog" where
  "makedirs_io env path w =
     (case makedirs env path of
        Some e \<Rightarrow> (Inl e, w)
      | None \<Rightarrow> (Inr (), w\<lparr>made_dirs := made_dirs w @ [path]\<rparr>))"

definition imread_io ::
  "('b, 'f, 'img, 'm) env \<Rightarrow> string \<Rightarrow> ('img, ('b, 'f) world) prog" where
  "imread_io env path w = (imread env path, w\<lparr>imreads := imreads w @ [path]\<rparr>)"

definition run_model_io ::
  "('b, 'f, 'img, 'm) env \<Rightarrow> 'm \<Rightarrow> 'img list list \<Rightarrow> string
     \<Rightarrow> ('f list \<times> 'f list, ('b, 'f) world) prog" where
  "run_model_io env model cell_data stem w =
     (run_model env model cell_data stem, w\<lparr>model_runs := model_runs w @ [stem]\<rparr>)"

text \<open>\<^verbatim>\<open>df.to_csv("result.csv", index=False)\<close>.\<close>

definition to_csv ::
  "('b, 'f, 'img, 'm) env \<Rightarrow> 'f dataframe \<Rightarrow> (unit, ('b, 'f) world) prog" where
  "to_csv env df w =
     (case open_write env ''result.csv'' of
        Some e \<Rightarrow> (Inl e, w)
      | None \<Rightarrow> (Inr (), w\<lparr>result_csv := Some df\<rparr>))"

section \<open>Model provisioner (lines 54 to 83)\<close>

text \<open>
  \<^verbatim>\<open>os.path.join("models", config["model_channels"], config["model_type"], name)\<close>,
  which the source writes out five times.
\<close>

definition model_file :: "settings \<Rightarrow> string \<Rightarrow> exn + string" where
  "model_file config name =
     and_then (config_get config ''model_channels'') (\<lambda>channels.
     and_then (config_get config ''model_type'') (\<lambda>model_type.
     and_then (as_str channels) (\<lambda>channels.
     and_then (as_str model_type) (\<lambda>model_type.
     Inr (os_path_join ''models'' [channels, model_type, name])))))"

text \<open>
  \<^verbatim>\<open>url_info[config["model_channels"]][config["model_type"]][artifact]\<close>. The two
  settings are strings here, line 54 having raised otherwise; a missing key is a KeyError.
\<close>

definition dict_get :: "(string \<rightharpoonup> 'v) \<Rightarrow> string \<Rightarrow> exn + 'v" where
  "dict_get d k =
     (case d k of
        None \<Rightarrow> Inl (Exception ''KeyError'' ([CHR 0x27] @ k @ [CHR 0x27]))
      | Some v \<Rightarrow> Inr v)"

definition lookup_url ::
  "(string \<rightharpoonup> (string \<rightharpoonup> (string \<rightharpoonup> string))) \<Rightarrow> settings \<Rightarrow> string \<Rightarrow> exn + string" where
  "lookup_url url_info config artifact =
     and_then (config_get config ''model_channels'') (\<lambda>channels.
     and_then (as_str channels) (\<lambda>channels.
     and_then (dict_get url_info channels) (\<lambda>by_type.
     and_then (config_get config ''model_type'') (\<lambda>model_type.
     and_then (as_str model_type) (\<lambda>model_type.
     and_then (dict_get by_type model_type) (\<lambda>urls.
     dict_get urls artifact))))))"

text \<open>
  Lines 62 to 68 with \<open>artifact = classifier\<close>, \<open>file_name = classifier.pth\<close>, and lines
  70 to 76 with \<open>encoder\<close>, \<open>encoder.pth\<close>: the two blocks differ in nothing else.
\<close>

definition download ::
  "settings \<Rightarrow> ('b, 'f, 'img, 'm) env \<Rightarrow> (string \<rightharpoonup> (string \<rightharpoonup> (string \<rightharpoonup> string)))
     \<Rightarrow> string \<Rightarrow> string \<Rightarrow> (unit, ('b, 'f) world) prog" where
  "download config env url_info artifact file_name =
     bind (lift (lookup_url url_info config artifact)) (\<lambda>url.
     bind (http_get env url) (\<lambda>response.
       if fst response = 200 then
         bind (lift (model_file config file_name)) (\<lambda>path.
         bind (write_file env path (snd response)) (\<lambda>_.
         log_to INFO (Text (''  - '' @ file_name @ '' updated.''))))
       else log_to WARNING (Text (''  - '' @ file_name @ '' url not found.''))))"

text \<open>
  Line 57, with the short circuit of \<^verbatim>\<open>or\<close>:
  \<^verbatim>\<open>not isfile(classifier_path) or not isfile(encoder_path) or config["update_model"]\<close>.
\<close>

definition update_needed ::
  "settings \<Rightarrow> string \<Rightarrow> string \<Rightarrow> (bool, ('b, 'f) world) prog" where
  "update_needed config classifier_path encoder_path =
     bind (isfile classifier_path) (\<lambda>have_classifier.
       if \<not> have_classifier then return True
       else bind (isfile encoder_path) (\<lambda>have_encoder.
         if \<not> have_encoder then return True
         else bind (lift (config_get config ''update_model'')) (\<lambda>v. return (truthy v))))"

text \<open>Lines 54 to 76.\<close>

definition provision ::
  "settings \<Rightarrow> ('b, 'f, 'img, 'm) env \<Rightarrow> (string \<times> string, ('b, 'f) world) prog" where
  "provision config env =
     bind (lift (model_file config ''classifier.pth'')) (\<lambda>classifier_path.
     bind (lift (model_file config ''encoder.pth'')) (\<lambda>encoder_path.
     bind (update_needed config classifier_path encoder_path) (\<lambda>needed.
     bind (if needed then
             bind (log_to INFO (Text ''- Downloading models...'')) (\<lambda>_.
             bind (lift (models_urls env)) (\<lambda>url_info.
             bind (download config env url_info ''classifier'' ''classifier.pth'') (\<lambda>_.
             download config env url_info ''encoder'' ''encoder.pth'')))
           else return ()) (\<lambda>_.
     return (encoder_path, classifier_path)))))"

text \<open>Lines 79 to 83.\<close>

definition load_selected_model ::
  "settings \<Rightarrow> ('b, 'f, 'img, 'm) env \<Rightarrow> string \<Rightarrow> string \<Rightarrow> ('m, ('b, 'f) world) prog" where
  "load_selected_model config env encoder_path classifier_path =
     bind (lift (model_file config ''model_config.yaml'')) (\<lambda>config_path.
     (\<lambda>w. (load_model env (files w) config_path encoder_path classifier_path, w)))"

section \<open>Result writer: top-1 and top-3 classes (lines 121 to 139)\<close>

text \<open>
  \<^verbatim>\<open>max(curr_probs_l)\<close>: the builtin keeps the first item and replaces it by a later item
  only when that item is strictly greater; an empty list raises ValueError.
\<close>

fun py_max :: "'f::linorder list \<Rightarrow> exn + 'f" where
  "py_max [] = Inl (Exception ''ValueError'' ''max() arg is an empty sequence'')"
| "py_max (x # xs) = Inr (fold (\<lambda>item maxitem. if item > maxitem then item else maxitem) xs x)"

text \<open>\<^verbatim>\<open>list.index(v)\<close>: the first position holding \<open>v\<close>, ValueError when there is none.\<close>

fun py_index :: "'a list \<Rightarrow> 'a \<Rightarrow> exn + nat" where
  "py_index [] v = Inl (Exception ''ValueError'' ''value is not in list'')"
| "py_index (x # xs) v =
     (if x = v then Inr 0
      else (case py_index xs v of Inl e \<Rightarrow> Inl e | Inr i \<Rightarrow> Inr (Suc i)))"

text \<open>Line 122: \<^verbatim>\<open>max_location_class = curr_probs_l.index(max(curr_probs_l))\<close>.\<close>

definition max_location_class :: "'f::linorder list \<Rightarrow> exn + nat" where
  "max_location_class curr_probs_l =
     (case py_max curr_probs_l of
        Inl e \<Rightarrow> Inl e
      | Inr m \<Rightarrow> py_index curr_probs_l m)"

text \<open>
  Line 124:
  \<^verbatim>\<open>sorted(range(len(curr_probs_l)), key=lambda sub: curr_probs_l[sub])[-3:]\<close>.
  Python's \<^verbatim>\<open>sorted\<close> is a stable ascending sort, as \<^const>\<open>sort_key\<close> is; the slice
  \<^verbatim>\<open>[-3:]\<close> keeps the last three items, or the whole list when it is shorter.
\<close>

definition max_3_location_classes :: "'f::linorder list \<Rightarrow> nat list" where
  "max_3_location_classes curr_probs_l =
     (let s = sort_key (\<lambda>sub. curr_probs_l ! sub) [0..<length curr_probs_l]
      in drop (length s - 3) s)"

text \<open>\<^verbatim>\<open>inference.CLASS2NAME[i]\<close>: a lookup error when the table has no entry \<open>i\<close>.\<close>

definition class_name :: "('b, 'f, 'img, 'm) env \<Rightarrow> nat \<Rightarrow> exn + string" where
  "class_name env i =
     (case CLASS2NAME env i of
        None \<Rightarrow> Inl (Exception ''LookupError'' (str_nat i))
      | Some name \<Rightarrow> Inr name)"

text \<open>
  Lines 125 to 127: the names of entries 2, 1 and 0 of the top-3 list, in this order,
  joined by commas. Entry 2 is read first, so a list shorter than three raises IndexError.
\<close>

definition max_3_location_names :: "('b, 'f, 'img, 'm) env \<Rightarrow> nat list \<Rightarrow> exn + string" where
  "max_3_location_names env max_3 =
     and_then (py_nth max_3 2) (\<lambda>i2.
     and_then (class_name env i2) (\<lambda>name2.
     and_then (py_nth max_3 1) (\<lambda>i1.
     and_then (class_name env i1) (\<lambda>name1.
     and_then (py_nth max_3 0) (\<lambda>i0.
     and_then (class_name env i0) (\<lambda>name0.
     Inr (name2 @ '','' @ name1 @ '','' @ name0)))))))"

text \<open>Lines 87 to 95: five fixed labels, \<open>prob00..prob30\<close> and \<open>feat0000..feat1535\<close>.\<close>

definition final_columns :: "string list" where
  "final_columns =
     [''id'', ''top_class_name'', ''top_class'', ''top_3_classes_names'', ''top_3_classes'']
     @ map (\<lambda>i. ''prob'' @ zero_padded 2 i) [0..<31]
     @ map (\<lambda>i. ''feat'' @ zero_padded 4 i) [0..<1536]"

text \<open>Lines 131 to 138.\<close>

definition new_row ::
  "string \<Rightarrow> string \<Rightarrow> nat \<Rightarrow> string \<Rightarrow> nat list \<Rightarrow> 'f list \<Rightarrow> 'f list \<Rightarrow> 'f cell list" where
  "new_row out_name max_name max_class names_3 classes_3 probabilities embedding =
     [CStr (strip out_name), CStr max_name, CInt max_class, CStr names_3,
      CStr (str_join '','' (map str_nat classes_3))]
     @ map CNum probabilities @ map CNum embedding"

text \<open>
  Line 139, \<^verbatim>\<open>df.loc[len(df.index)] = new_row\<close>: pandas appends the list as a new last
  row when it has one item for each column, and raises ValueError otherwise.
\<close>

definition df_append :: "'f dataframe \<Rightarrow> 'f cell list \<Rightarrow> exn + 'f dataframe" where
  "df_append df row =
     (if length row = length (columns df) then Inr (df\<lparr>rows := rows df @ [row]\<rparr>)
      else Inl (Exception ''ValueError'' ''cannot set a row with mismatched columns''))"

section \<open>Batch loader and inference (lines 99 to 144)\<close>

text \<open>
  \<^verbatim>\<open>"r" in config["model_channels"]\<close>: for a string, whether the letter occurs in it;
  for a list, whether the one-letter string is an item; TypeError for any other value.
\<close>

fun contains_letter :: "char \<Rightarrow> pyval \<Rightarrow> exn + bool" where
  "contains_letter c (VStr s) = Inr (c \<in> set s)"
| "contains_letter c (VList vs) = Inr (VStr [c] \<in> set vs)"
| "contains_letter c v = Inl (Exception ''TypeError'' ''argument is not iterable'')"

text \<open>
  One of the four blocks of lines 109 to 116, for the letter and its field index:
  \<^verbatim>\<open>if "r" in config["model_channels"]: cell_data.append([imread(curr_set_arr[0].strip(), as_gray=True)])\<close>
\<close>

definition read_channel ::
  "char \<Rightarrow> nat \<Rightarrow> settings \<Rightarrow> ('b, 'f, 'img, 'm) env \<Rightarrow> string list \<Rightarrow> 'img list list
     \<Rightarrow> ('img list list, ('b, 'f) world) prog" where
  "read_channel letter i config env curr_set_arr cell_data =
     bind (lift (and_then (config_get config ''model_channels'') (contains_letter letter)))
       (\<lambda>wanted.
         if wanted then
           bind (lift (py_nth curr_set_arr i)) (\<lambda>field.
           bind (imread_io env (strip field)) (\<lambda>img.
           return (cell_data @ [[img]])))
         else return cell_data)"

text \<open>Lines 108 to 116.\<close>

definition load_cell_data ::
  "settings \<Rightarrow> ('b, 'f, 'img, 'm) env \<Rightarrow> string list \<Rightarrow> ('img list list, ('b, 'f) world) prog"
  where
  "load_cell_data config env curr_set_arr =
     bind (read_channel (CHR ''r'') 0 config env curr_set_arr []) (\<lambda>cell_data.
     bind (read_channel (CHR ''y'') 1 config env curr_set_arr cell_data) (\<lambda>cell_data.
     bind (read_channel (CHR ''b'') 2 config env curr_set_arr cell_data) (\<lambda>cell_data.
     read_channel (CHR ''g'') 3 config env curr_set_arr cell_data)))"

text \<open>
  Lines 104 to 141, the body of the loop for a line that is neither blank nor a comment.
  It returns the table, with the new row when CSV mode is on.
\<close>

definition process_set ::
  "settings \<Rightarrow> ('b, 'f::linorder, 'img, 'm) env \<Rightarrow> 'm \<Rightarrow> string \<Rightarrow> 'f dataframe
     \<Rightarrow> ('f dataframe, ('b, 'f) world) prog" where
  "process_set config env model curr_set df =
     (let curr_set_arr = str_split (CHR '','') curr_set in
      bind (lift (py_nth curr_set_arr 4)) (\<lambda>out_dir.
      bind (makedirs_io env (strip out_dir)) (\<lambda>_.
      bind (load_cell_data config env curr_set_arr) (\<lambda>cell_data.
      bind (lift (py_nth curr_set_arr 5)) (\<lambda>out_name.
      bind (run_model_io env model cell_data (os_path_join out_dir [strip out_name]))
        (\<lambda>result.
      (let embedding = fst result; probabilities = snd result in
      bind (lift (max_location_class probabilities)) (\<lambda>max_class.
      bind (lift (class_name env max_class)) (\<lambda>max_name.
      (let classes_3 = max_3_location_classes probabilities in
      bind (lift (max_3_location_names env classes_3)) (\<lambda>names_3.
      bind (lift (config_get config ''create_csv'')) (\<lambda>create_csv.
      bind (if truthy create_csv
            then lift (df_append df
                   (new_row out_name max_name max_class names_3 classes_3
                      probabilities embedding))
            else return df) (\<lambda>df'.
      bind (log_to INFO (Text (''- Saved results for '' @ strip out_name
                                @ '', locations predicted ['' @ names_3 @ '']''))) (\<lambda>_.
      return df'))))))))))))))"

text \<open>Line 103: \<^verbatim>\<open>curr_set.strip() != "" and not curr_set.startswith("#")\<close>.\<close>

definition is_data_line :: "string \<Rightarrow> bool" where
  "is_data_line curr_set = (strip curr_set \<noteq> [] \<and> \<not> startswith curr_set ''#'')"

text \<open>Lines 101 to 141: the loop over the lines of the manifest.\<close>

fun process_list ::
  "settings \<Rightarrow> ('b, 'f::linorder, 'img, 'm) env \<Rightarrow> 'm \<Rightarrow> string list \<Rightarrow> 'f dataframe
     \<Rightarrow> ('f dataframe, ('b, 'f) world) prog" where
  "process_list config env model [] df = return df"
| "process_list config env model (curr_set # rest) df =
     (if is_data_line curr_set then
        bind (process_set config env model curr_set df)
          (\<lambda>df'. process_list config env model rest df')
      else process_list config env model rest df)"

text \<open>Lines 99 to 144.\<close>

definition process_manifest ::
  "settings \<Rightarrow> ('b, 'f::linorder, 'img, 'm) env \<Rightarrow> 'm \<Rightarrow> 'f dataframe
     \<Rightarrow> (unit, ('b, 'f) world) prog" where
  "process_manifest config env model df =
     (case path_list env of
        None \<Rightarrow> return ()
      | Some opened \<Rightarrow>
          bind (lift opened) (\<lambda>lines.
          bind (process_list config env model lines df) (\<lambda>df'.
          bind (lift (config_get config ''create_csv'')) (\<lambda>create_csv.
          if truthy create_csv then to_csv env df' else return ()))))"

section \<open>The try block, its handler and the script\<close>

text \<open>
  Lines 54 to 96: the weight files, the model, and the empty table. The source binds
  \<^verbatim>\<open>df\<close> only when CSV mode is on and uses it only under the same test of the same
  setting, so the model binds it always.
\<close>

definition prepare ::
  "settings \<Rightarrow> ('b, 'f, 'img, 'm) env \<Rightarrow> ('m \<times> 'f dataframe, ('b, 'f) world) prog" where
  "prepare config env =
     bind (provision config env) (\<lambda>paths.
     bind (load_selected_model config env (fst paths) (snd paths)) (\<lambda>model.
     bind (lift (config_get config ''create_csv'')) (\<lambda>create_csv.
     return (model, \<lparr>columns = final_columns, rows = []\<rparr>))))"

text \<open>Lines 53 to 144, the body of \<^verbatim>\<open>try\<close>.\<close>

definition try_block ::
  "settings \<Rightarrow> ('b, 'f::linorder, 'img, 'm) env \<Rightarrow> (unit, ('b, 'f) world) prog" where
  "try_block config env =
     bind (prepare config env) (\<lambda>ready. process_manifest config env (fst ready) (snd ready))"

text \<open>Lines 53 to 146: \<^verbatim>\<open>except Exception as e: config["log"].error("- " + str(e))\<close>.\<close>

definition main ::
  "settings \<Rightarrow> ('b, 'f::linorder, 'img, 'm) env \<Rightarrow> ('b, 'f) world \<Rightarrow> ('b, 'f) world" where
  "main config env w =
     (case try_block config env w of
        (Inl e, w') \<Rightarrow> snd (log_to ERROR (Text (''- '' @ str_exn e)) w')
      | (Inr u, w') \<Rightarrow> w')"

text \<open>
  The whole script. An exception of lines 22 to 50 is not handled and ends the run. The
  logger is read from the settings (\<^verbatim>\<open>config["log"]\<close>) at every use; the settings do not
  change after line 44, and line 47 fails with AttributeError unless the key still holds
  the logger, so the later uses cannot fail.
\<close>

datatype outcome = Completed | Crashed exn

definition script ::
  "(string \<times> string) list \<Rightarrow> exn + yaml_doc \<Rightarrow> ('b, 'f::linorder, 'img, 'm) env
     \<Rightarrow> ('b, 'f) world \<Rightarrow> outcome \<times> ('b, 'f) world" where
  "script argv config_yaml env w =
     (case resolve_config argv config_yaml of
        Inl e \<Rightarrow> (Crashed e, w)
      | Inr config \<Rightarrow>
          if config ''log'' = Some VLogger then
            (let w1 = snd (log_to INFO (Text (''Start: '' @ start_time env)) w);
                 w2 = snd (log_to INFO (Text ''Parameters used:'') w1);
                 w3 = snd (log_to INFO (Dump config) w2);
                 w4 = snd (log_to INFO (Text ''----------'') w3);
                 w5 = main config env w4;
                 w6 = snd (log_to INFO (Text ''----------'') w5);
                 w7 = snd (log_to INFO (Text (''End: '' @ end_time env)) w6)
             in (Completed, w7))
          else (Crashed (Exception ''AttributeError'' ''object has no attribute info''), w))"

section \<open>Frame conditions\<close>

text \<open>
  \<open>keeps g m\<close>: running \<open>m\<close> leaves the component \<open>g\<close> of the world as it was, whether
  \<open>m\<close> returns or raises.
\<close>

definition keeps :: "('w \<Rightarrow> 'c) \<Rightarrow> ('a, 'w) prog \<Rightarrow> bool" where
  "keeps g m = (\<forall>w. g (snd (m w)) = g w)"

text \<open>The records of a log at level ERROR.\<close>

definition error_lines :: "(level \<times> logmsg) list \<Rightarrow> (level \<times> logmsg) list" where
  "error_lines ls = filter (\<lambda>l. fst l = ERROR) ls"

text \<open>
  \<open>reads_within S m\<close>: whatever \<open>m\<close> passes to \<^verbatim>\<open>imread\<close> is a path of \<open>S\<close>, and the
  earlier part of the trace stays as it was.
\<close>

definition reads_within :: "string set \<Rightarrow> ('a, ('b, 'f) world) prog \<Rightarrow> bool" where
  "reads_within S m =
     (\<forall>w. \<exists>trace. imreads (snd (m w)) = imreads w @ trace \<and> set trace \<subseteq> S)"

section \<open>A concrete run\<close>

text \<open>
  An environment, settings and a starting world on which the theorems below are
  exercised: channel set \<^verbatim>\<open>rb\<close>, CSV mode on, both weight files on disk, a download
  server that has the encoder but not the classifier, a manifest of one comment, one
  good row, one blank line, one row whose blue image is missing and one more good row, and
  a model that returns 31 probabilities and 1536 embedding values.
\<close>

definition example_config :: settings where
  "example_config = defaults(''model_channels'' \<mapsto> VStr ''rb'', ''create_csv'' \<mapsto> VBool True)"

definition example_urls :: "string \<rightharpoonup> (string \<rightharpoonup> (string \<rightharpoonup> string))" where
  "example_urls =
     [''rb'' \<mapsto> [''mae_contrast_supcon_model'' \<mapsto>
        [''classifier'' \<mapsto> ''https://host/c'', ''encoder'' \<mapsto> ''https://host/e'']]]"

definition example_lines :: "string list" where
  "example_lines =
     [''# r,y,b,g,out_dir,out_name\<newline>'',
      ''r1.png,y1.png,b1.png,g1.png,out,cell1\<newline>'',
      ''\<newline>'',
      ''r2.png,y2.png,missing.png,g2.png,out,cell2\<newline>'',
      ''r3.png,y3.png,b3.png,g3.png,out,cell3\<newline>'']"

definition example_probabilities :: "int list" where
  "example_probabilities = replicate 28 0 @ [5, 9, 7]"

definition example_embedding :: "int list" where
  "example_embedding = replicate 1536 0"

definition example_env :: "(string, int, string, unit) env" where
  "example_env =
     \<lparr>requests_get = (\<lambda>url. if url = ''https://host/c'' then Inr (404, ''gone'')
                             else Inr (200, ''new weights'')),
      open_write = (\<lambda>path. None),
      models_urls = Inr example_urls,
      load_model = (\<lambda>on_disk config_path encoder_path classifier_path. Inr ()),
      path_list = Some (Inr example_lines),
      makedirs = (\<lambda>path. None),
      imread = (\<lambda>path. if path = ''missing.png''
                        then Inl (Exception ''FileNotFoundError'' ''No such file: missing.png'')
                        else Inr path),
      run_model = (\<lambda>model cell_data stem. Inr (example_embedding, example_probabilities)),
      CLASS2NAME = (\<lambda>i. if i < 31 then Some (''class'' @ str_nat i) else None),
      start_time = ''2024/01/01 00:00:00'',
      end_time = ''2024/01/01 00:00:01''\<rparr>"

definition example_world :: "(string, int) world" where
  "example_world =
     \<lparr>files = [''models/rb/mae_contrast_supcon_model/classifier.pth'' \<mapsto> ''old classifier'',
               ''models/rb/mae_contrast_supcon_model/encoder.pth'' \<mapsto> ''old encoder''],
      requests = [],
      imreads = [],
      made_dirs = [],
      model_runs = [],
      log_lines = [],
      result_csv = None\<rparr>"

definition example_table :: "int dataframe" where
  "example_table = \<lparr>columns = final_columns, rows = []\<rparr>"

definition example_row :: "string \<Rightarrow> int cell list" where
  "example_row name =
     [CStr name, CStr ''class29'', CInt 29, CStr ''class29,class30,class28'', CStr ''28,30,29'']
     @ map CNum example_probabilities @ map CNum example_embedding"

section \<open>Properties of the top-1 class\<close>

lemma fold_max_eq_Max:
  "fold (\<lambda>item maxitem. if item > maxitem then item else maxitem) xs (x::'f::linorder)
     = Max (insert x (set xs))"
proof (induction xs arbitrary: x)
  case Nil
  show ?case by simp
next
  case (Cons y ys)
  have "(if y > x then y else x) = max x y" by (auto simp: max_def)
  moreover have "Max (insert (max x y) (set ys)) = Max (insert x (insert y (set ys)))"
    by (cases "set ys = {}") (simp_all add: max.assoc)
  ultimately show ?case using Cons.IH [of "max x y"] by (simp add: insert_commute)
qed

lemma py_max_eq_Max: "xs \<noteq> [] \<Longrightarrow> py_max xs = Inr (Max (set xs))"
  by (cases xs) (simp_all add: fold_max_eq_Max)

lemma py_index_first:
  "v \<in> set xs \<Longrightarrow>
   \<exists>i. py_index xs v = Inr i \<and> i < length xs \<and> xs ! i = v \<and> (\<forall>j<i. xs ! j \<noteq> v)"
proof (induction xs)
  case Nil
  then show ?case by simp
next
  case (Cons x xs)
  show ?case
  proof (cases "x = v")
    case True
    then show ?thesis by simp
  next
    case False
    with Cons.prems have "v \<in> set xs" by simp
    from Cons.IH [OF this] obtain i where
      i: "py_index xs v = Inr i" "i < length xs" "xs ! i = v" "\<forall>j<i. xs ! j \<noteq> v"
      by blast
    have "\<forall>j<Suc i. (x # xs) ! j \<noteq> v"
    proof (intro allI impI)
      fix j assume "j < Suc i"
      then show "(x # xs) ! j \<noteq> v" using False i(4) by (cases j) simp_all
    qed
    with False i show ?thesis by simp
  qed
qed

text \<open>
  C1. The top-1 class index is the index of the maximum value of the probability vector
  (the first such index when the maximum occurs more than once; an empty vector has no
  maximum and raises ValueError); for \<open>[0.1, 0.7, 0.2]\<close> it is 1.
\<close>

theorem top1_is_index_of_maximum:
  "(curr_probs_l \<noteq> [] \<longrightarrow>
      (\<exists>i. max_location_class curr_probs_l = Inr i \<and> i < length curr_probs_l
          \<and> curr_probs_l ! i = Max (set curr_probs_l)
          \<and> (\<forall>j<i. curr_probs_l ! j \<noteq> Max (set curr_probs_l))))
   \<and> (\<exists>e. max_location_class ([] :: 'f::linorder list) = Inl e)
   \<and> max_location_class [1/10, 7/10, 2/10 :: real] = Inr 1"
proof (intro conjI impI)
  assume ne: "curr_probs_l \<noteq> []"
  then have "Max (set curr_probs_l) \<in> set curr_probs_l" by simp
  from py_index_first [OF this] show
    "\<exists>i. max_location_class curr_probs_l = Inr i \<and> i < length curr_probs_l
        \<and> curr_probs_l ! i = Max (set curr_probs_l)
        \<and> (\<forall>j<i. curr_probs_l ! j \<noteq> Max (set curr_probs_l))"
    by (simp add: max_location_class_def py_max_eq_Max [OF ne])
next
  show "\<exists>e. max_location_class ([] :: 'f list) = Inl e"
    by (simp add: max_location_class_def)
next
  show "max_location_class [1/10, 7/10, 2/10 :: real] = Inr 1"
    by (simp add: max_location_class_def)
qed

theorem top1_is_index_of_maximum_witness:
  "[3, 9, 9, 1 :: int] \<noteq> []
   \<and> (\<exists>i. max_location_class [3, 9, 9, 1 :: int] = Inr i \<and> i < length [3, 9, 9, 1 :: int]
          \<and> [3, 9, 9, 1 :: int] ! i = 9 \<and> (\<forall>j<i. [3, 9, 9, 1 :: int] ! j \<noteq> 9))"
proof -
  have ne: "[3, 9, 9, 1 :: int] \<noteq> []" by simp
  have m: "Max (set [3, 9, 9, 1 :: int]) = 9" by simp
  from top1_is_index_of_maximum [of "[3, 9, 9, 1 :: int]"] ne
  have "\<exists>i. max_location_class [3, 9, 9, 1 :: int] = Inr i \<and> i < length [3, 9, 9, 1 :: int]
          \<and> [3, 9, 9, 1 :: int] ! i = Max (set [3, 9, 9, 1 :: int])
          \<and> (\<forall>j<i. [3, 9, 9, 1 :: int] ! j \<noteq> Max (set [3, 9, 9, 1 :: int]))"
    by blast
  with ne show ?thesis unfolding m by blast
qed

section \<open>Properties of the top-3 classes\<close>

lemma top3_split:
  "sort_key (\<lambda>sub. curr_probs_l ! sub) [0..<length curr_probs_l]
     = take (length curr_probs_l - 3)
         (sort_key (\<lambda>sub. curr_probs_l ! sub) [0..<length curr_probs_l])
       @ max_3_location_classes curr_probs_l"
  by (simp add: max_3_location_classes_def)

lemma top3_length:
  "3 \<le> length curr_probs_l \<Longrightarrow> length (max_3_location_classes curr_probs_l) = 3"
  by (simp add: max_3_location_classes_def)

lemma top3_distinct: "distinct (max_3_location_classes curr_probs_l)"
  by (simp add: max_3_location_classes_def)

lemma top3_in_range:
  assumes "i \<in> set (max_3_location_classes curr_probs_l)"
  shows "i < length curr_probs_l"
proof -
  from assms
  have "i \<in> set (sort_key (\<lambda>sub. curr_probs_l ! sub) [0..<length curr_probs_l])"
    unfolding max_3_location_classes_def Let_def by (rule in_set_dropD)
  then show ?thesis by simp
qed

lemma top3_sorted:
  "sorted (map (\<lambda>sub. curr_probs_l ! sub) (max_3_location_classes curr_probs_l))"
proof -
  let ?f = "\<lambda>sub. curr_probs_l ! sub"
  let ?s = "sort_key ?f [0..<length curr_probs_l]"
  have "sorted (map ?f ?s)" by (rule sorted_sort_key)
  then have "sorted (drop (length ?s - 3) (map ?f ?s))" by (rule sorted_wrt_drop)
  then show ?thesis unfolding max_3_location_classes_def Let_def drop_map .
qed

lemma top3_rest_below:
  assumes "j < length curr_probs_l" "j \<notin> set (max_3_location_classes curr_probs_l)"
    and "i \<in> set (max_3_location_classes curr_probs_l)"
  shows "curr_probs_l ! j \<le> curr_probs_l ! i"
proof -
  let ?f = "\<lambda>sub. curr_probs_l ! sub"
  let ?s = "sort_key ?f [0..<length curr_probs_l]"
  let ?a = "take (length curr_probs_l - 3) ?s"
  let ?t = "max_3_location_classes curr_probs_l"
  have split: "?s = ?a @ ?t" by (rule top3_split)
  have "j \<in> set ?s" using assms(1) by simp
  then have "j \<in> set (?a @ ?t)" using split by simp
  with assms(2) have ja: "j \<in> set ?a" by simp
  have "sorted (map ?f ?s)" by (rule sorted_sort_key)
  then have "sorted (map ?f (?a @ ?t))" using split by simp
  then have "sorted (map ?f ?a @ map ?f ?t)" by (simp only: map_append)
  then have "\<forall>x\<in>set (map ?f ?a). \<forall>y\<in>set (map ?f ?t). x \<le> y"
    unfolding sorted_append by blast
  moreover have "?f j \<in> set (map ?f ?a)" using ja unfolding set_map by (rule imageI)
  moreover have "?f i \<in> set (map ?f ?t)" using assms(3) unfolding set_map by (rule imageI)
  ultimately show ?thesis by blast
qed

lemma top3_ties_by_index:
  assumes "j < length curr_probs_l" "j \<notin> set (max_3_location_classes curr_probs_l)"
    and "i \<in> set (max_3_location_classes curr_probs_l)"
    and "curr_probs_l ! j = curr_probs_l ! i"
  shows "j < i"
proof -
  let ?f = "\<lambda>sub. curr_probs_l ! sub"
  let ?s = "sort_key ?f [0..<length curr_probs_l]"
  let ?a = "take (length curr_probs_l - 3) ?s"
  let ?t = "max_3_location_classes curr_probs_l"
  let ?P = "\<lambda>y. ?f y = ?f i"
  have split: "?s = ?a @ ?t" by (rule top3_split)
  have "j \<in> set ?s" using assms(1) by simp
  then have "j \<in> set (?a @ ?t)" using split by simp
  with assms(2) have ja: "j \<in> set ?a" by simp
  have "filter ?P ?s = filter ?P [0..<length curr_probs_l]" by (rule sort_key_stable)
  moreover have "sorted (filter ?P [0..<length curr_probs_l])"
    by (rule sorted_wrt_filter) (rule sorted_upt)
  ultimately have "sorted (filter ?P ?s)" by (simp only:)
  then have "sorted (filter ?P (?a @ ?t))" using split by simp
  then have "sorted (filter ?P ?a @ filter ?P ?t)" by (simp only: filter_append)
  then have le: "\<forall>x\<in>set (filter ?P ?a). \<forall>y\<in>set (filter ?P ?t). x \<le> y"
    unfolding sorted_append by blast
  have "j \<in> set (filter ?P ?a)" using ja assms(4) by simp
  moreover have "i \<in> set (filter ?P ?t)" using assms(3) by simp
  ultimately have "j \<le> i" using le by blast
  moreover have "j \<noteq> i" using assms(2,3) by blast
  ultimately show ?thesis by simp
qed

lemma sorted3:
  assumes "sorted (map f t)" "length t = 3"
  shows "f (t ! 0) \<le> f (t ! 1) \<and> f (t ! 1) \<le> f (t ! 2)"
proof -
  from assms(2) obtain a b c where "t = [a, b, c]"
    by (cases t; cases "tl t"; cases "tl (tl t)") auto
  with assms(1) show ?thesis by simp
qed

text \<open>
  C2. For a probability vector of length at least 3, the top-3 list (the last three items
  of the stable ascending sort of the indices by probability) has three distinct valid
  indices in ascending order of probability, and every other position holds a value no
  greater than the lowest of the three, a tie with it being left out only when its index
  is smaller. Read backwards, the list for \<open>[0.5, 0.1, 0.2, 0.4, 0.3]\<close> is \<open>[0, 3, 4]\<close>.
\<close>

theorem top3_are_three_highest:
  "(3 \<le> length curr_probs_l \<longrightarrow>
      (let t = max_3_location_classes curr_probs_l in
         length t = 3 \<and> distinct t \<and> (\<forall>i\<in>set t. i < length curr_probs_l)
         \<and> curr_probs_l ! (t ! 0) \<le> curr_probs_l ! (t ! 1)
         \<and> curr_probs_l ! (t ! 1) \<le> curr_probs_l ! (t ! 2)
         \<and> (\<forall>j<length curr_probs_l. j \<notin> set t \<longrightarrow>
               curr_probs_l ! j \<le> curr_probs_l ! (t ! 0)
               \<and> (curr_probs_l ! j = curr_probs_l ! (t ! 0) \<longrightarrow> j < t ! 0))))
   \<and> max_3_location_classes [1/2, 1/10, 1/5, 2/5, 3/10 :: real] = [4, 3, 0]
   \<and> rev (max_3_location_classes [1/2, 1/10, 1/5, 2/5, 3/10 :: real]) = [0, 3, 4]"
proof (intro conjI impI)
  assume len: "3 \<le> length curr_probs_l"
  let ?t = "max_3_location_classes curr_probs_l"
  have l3: "length ?t = 3" using len by (rule top3_length)
  then have t0: "?t ! 0 \<in> set ?t" by simp
  have ord: "curr_probs_l ! (?t ! 0) \<le> curr_probs_l ! (?t ! 1)
      \<and> curr_probs_l ! (?t ! 1) \<le> curr_probs_l ! (?t ! 2)"
    using top3_sorted l3 by (rule sorted3)
  have rest: "\<forall>j<length curr_probs_l. j \<notin> set ?t \<longrightarrow>
               curr_probs_l ! j \<le> curr_probs_l ! (?t ! 0)
               \<and> (curr_probs_l ! j = curr_probs_l ! (?t ! 0) \<longrightarrow> j < ?t ! 0)"
    using top3_rest_below [OF _ _ t0] top3_ties_by_index [OF _ _ t0] by blast
  have rng: "\<forall>i\<in>set ?t. i < length curr_probs_l" using top3_in_range by blast
  show "let t = ?t in
         length t = 3 \<and> distinct t \<and> (\<forall>i\<in>set t. i < length curr_probs_l)
         \<and> curr_probs_l ! (t ! 0) \<le> curr_probs_l ! (t ! 1)
         \<and> curr_probs_l ! (t ! 1) \<le> curr_probs_l ! (t ! 2)
         \<and> (\<forall>j<length curr_probs_l. j \<notin> set t \<longrightarrow>
               curr_probs_l ! j \<le> curr_probs_l ! (t ! 0)
               \<and> (curr_probs_l ! j = curr_probs_l ! (t ! 0) \<longrightarrow> j < t ! 0))"
    unfolding Let_def using l3 top3_distinct rng ord rest by blast
next
  show e: "max_3_location_classes [1/2, 1/10, 1/5, 2/5, 3/10 :: real] = [4, 3, 0]"
    by code_simp
  show "rev (max_3_location_classes [1/2, 1/10, 1/5, 2/5, 3/10 :: real]) = [0, 3, 4]"
    unfolding e by simp
qed

theorem top3_are_three_highest_witness:
  "3 \<le> length [5, 7, 7, 1, 7 :: int]
   \<and> max_3_location_classes [5, 7, 7, 1, 7 :: int] = [1, 2, 4]
   \<and> [5, 7, 7, 1, 7 :: int] ! 0 \<le> [5, 7, 7, 1, 7 :: int] ! 1
   \<and> [5, 7, 7, 1, 7 :: int] ! 3 \<le> [5, 7, 7, 1, 7 :: int] ! 1"
proof -
  have len: "3 \<le> length [5, 7, 7, 1, 7 :: int]" by simp
  have e: "max_3_location_classes [5, 7, 7, 1, 7 :: int] = [1, 2, 4]" by code_simp
  from top3_are_three_highest [of "[5, 7, 7, 1, 7 :: int]"] len
  have rest: "\<forall>j<length [5, 7, 7, 1, 7 :: int]. j \<notin> set [1, 2, 4 :: nat] \<longrightarrow>
          [5, 7, 7, 1, 7 :: int] ! j \<le> [5, 7, 7, 1, 7 :: int] ! ([1, 2, 4] ! 0)"
    unfolding e Let_def by blast
  from rest [rule_format, of 0] have "[5, 7, 7, 1, 7 :: int] ! 0 \<le> [5, 7, 7, 1, 7 :: int] ! 1"
    by simp
  moreover
  from rest [rule_format, of 3] have "[5, 7, 7, 1, 7 :: int] ! 3 \<le> [5, 7, 7, 1, 7 :: int] ! 1"
    by simp
  ultimately show ?thesis using len e by blast
qed

section \<open>Properties of the argument parser\<close>

lemma find_in_argparser:
  "find (\<lambda>a. opt \<in> set (option_strings a)) argparser = Some a \<Longrightarrow>
   a \<in> set argparser \<and> opt \<in> set (option_strings a)"
  by (auto simp: find_Some_iff)

lemma argparser_cases:
  assumes "a \<in> set argparser"
  obtains
      "a = Argument [''-c'', ''--model_channels''] ''model_channels'' (VStr ''rybg'') type_str"
    | "a = Argument [''-t'', ''--model_type''] ''model_type''
        (VStr ''mae_contrast_supcon_model'') type_str"
    | "a = Argument [''-u'', ''--update_model''] ''update_model'' (VBool False) type_bool"
    | "a = Argument [''-csv'', ''--create_csv''] ''create_csv'' (VBool False) type_bool"
  using assms unfolding argparser_def by fastforce

lemma find_update_model:
  assumes "find (\<lambda>a. opt \<in> set (option_strings a)) argparser = Some a"
  shows "(opt \<in> set [''-u'', ''--update_model'']
            \<longrightarrow> dest a = ''update_model'' \<and> arg_type a = type_bool)
       \<and> (opt \<notin> set [''-u'', ''--update_model''] \<longrightarrow> dest a \<noteq> ''update_model'')"
proof -
  from find_in_argparser [OF assms]
  have mem: "a \<in> set argparser" and opt: "opt \<in> set (option_strings a)" by simp_all
  from mem show ?thesis
  proof (cases rule: argparser_cases)
    case 1
    with opt show ?thesis by fastforce
  next
    case 2
    with opt show ?thesis by fastforce
  next
    case 3
    with opt show ?thesis by fastforce
  next
    case 4
    with opt show ?thesis by fastforce
  qed
qed

lemma find_create_csv:
  assumes "find (\<lambda>a. opt \<in> set (option_strings a)) argparser = Some a"
  shows "(opt \<in> set [''-csv'', ''--create_csv'']
            \<longrightarrow> dest a = ''create_csv'' \<and> arg_type a = type_bool)
       \<and> (opt \<notin> set [''-csv'', ''--create_csv''] \<longrightarrow> dest a \<noteq> ''create_csv'')"
proof -
  from find_in_argparser [OF assms]
  have mem: "a \<in> set argparser" and opt: "opt \<in> set (option_strings a)" by simp_all
  from mem show ?thesis
  proof (cases rule: argparser_cases)
    case 1
    with opt show ?thesis by fastforce
  next
    case 2
    with opt show ?thesis by fastforce
  next
    case 3
    with opt show ?thesis by fastforce
  next
    case 4
    with opt show ?thesis by fastforce
  qed
qed

lemma parse_args_from_flag:
  assumes spec: "\<And>opt a. find (\<lambda>a. opt \<in> set (option_strings a)) argparser = Some a \<Longrightarrow>
      (opt \<in> set opts \<longrightarrow> dest a = k \<and> arg_type a = type_bool)
      \<and> (opt \<notin> set opts \<longrightarrow> dest a \<noteq> k)"
  shows "parse_args_from ns argv = Inr ns' \<Longrightarrow>
     ns' k = (if args_passed opts argv = [] then ns k
              else Some (VBool (last (args_passed opts argv) \<noteq> [])))"
proof (induction argv arbitrary: ns)
  case Nil
  then show ?case by (simp add: args_passed_def)
next
  case (Cons occ rest)
  obtain opt arg where occ: "occ = (opt, arg)" by (cases occ)
  show ?case
  proof (cases "find (\<lambda>a. opt \<in> set (option_strings a)) argparser")
    case None
    with Cons.prems occ show ?thesis by simp
  next
    case (Some a)
    with Cons.prems occ
    have rec: "parse_args_from (ns(dest a \<mapsto> convert (arg_type a) arg)) rest = Inr ns'"
      by simp
    note ih = Cons.IH [OF rec]
    show ?thesis
    proof (cases "opt \<in> set opts")
      case True
      with spec [OF Some] have "dest a = k" "arg_type a = type_bool" by simp_all
      with ih True occ show ?thesis by (simp add: args_passed_def)
    next
      case False
      with spec [OF Some] have "dest a \<noteq> k" by simp
      with ih False occ show ?thesis by (simp add: args_passed_def)
    qed
  qed
qed

lemma namespace_defaults_flags:
  "namespace_defaults ''update_model'' = Some (VBool False)"
  "namespace_defaults ''create_csv'' = Some (VBool False)"
  by (simp_all add: namespace_defaults_def argparser_def)

text \<open>
  C9 (as amended). When the command line parses, the value of \<^verbatim>\<open>update_model\<close> (and
  likewise of \<^verbatim>\<open>create_csv\<close>) is \<^verbatim>\<open>bool\<close> of the last argument string passed to
  \<^verbatim>\<open>-u\<close>/\<^verbatim>\<open>--update_model\<close> (to \<^verbatim>\<open>-csv\<close>/\<^verbatim>\<open>--create_csv\<close>): true for every
  non-empty string, the string \<^verbatim>\<open>False\<close> included, and false when the option is
  omitted or when that argument is the empty string.
\<close>

theorem bool_flags_follow_last_argument:
  assumes "parse_args argv = Inr args"
  shows "args ''update_model''
           = Some (VBool (args_passed [''-u'', ''--update_model''] argv \<noteq> []
                          \<and> last (args_passed [''-u'', ''--update_model''] argv) \<noteq> []))
       \<and> args ''create_csv''
           = Some (VBool (args_passed [''-csv'', ''--create_csv''] argv \<noteq> []
                          \<and> last (args_passed [''-csv'', ''--create_csv''] argv) \<noteq> []))"
proof -
  from assms have p: "parse_args_from namespace_defaults argv = Inr args"
    by (simp add: parse_args_def)
  have u: "args ''update_model'' =
      (if args_passed [''-u'', ''--update_model''] argv = []
       then namespace_defaults ''update_model''
       else Some (VBool (last (args_passed [''-u'', ''--update_model''] argv) \<noteq> [])))"
    using find_update_model p by (rule parse_args_from_flag)
  have c: "args ''create_csv'' =
      (if args_passed [''-csv'', ''--create_csv''] argv = []
       then namespace_defaults ''create_csv''
       else Some (VBool (last (args_passed [''-csv'', ''--create_csv''] argv) \<noteq> [])))"
    using find_create_csv p by (rule parse_args_from_flag)
  show ?thesis unfolding u c namespace_defaults_flags by simp
qed

theorem bool_flags_follow_last_argument_witness:
  "parse_args [(''-c'', ''rb''), (''-u'', ''False'')]
     = Inr (namespace_defaults(''model_channels'' \<mapsto> VStr ''rb'', ''update_model'' \<mapsto> VBool True))
   \<and> parsed_value ''update_model'' [(''-c'', ''rb''), (''-u'', ''False'')] = Inr (Some (VBool True))
   \<and> parsed_value ''create_csv'' [(''-c'', ''rb''), (''-u'', ''False'')] = Inr (Some (VBool False))"
proof -
  let ?argv = "[(''-c'', ''rb''), (''-u'', ''False'')]"
  let ?args = "namespace_defaults(''model_channels'' \<mapsto> VStr ''rb'', ''update_model'' \<mapsto> VBool True)"
  have p: "parse_args ?argv = Inr ?args"
    by (simp add: parse_args_def argparser_def)
  have u: "args_passed [''-u'', ''--update_model''] ?argv = [''False'']"
    and c: "args_passed [''-csv'', ''--create_csv''] ?argv = []"
    by (simp_all add: args_passed_def)
  from bool_flags_follow_last_argument [OF p]
  have "?args ''update_model'' = Some (VBool True) \<and> ?args ''create_csv'' = Some (VBool False)"
    unfolding u c by simp
  then show ?thesis using p by (simp only: parsed_value_def and_then_def sum.case simp_thms)
qed

text \<open>
  Omitting the option is not the only way to get false: \<^verbatim>\<open>-u ""\<close> passes the empty
  string, and \<^verbatim>\<open>bool("")\<close> is false.
\<close>

theorem empty_argument_gives_false:
  "parsed_value ''update_model'' [(''-u'', '''')] = Inr (Some (VBool False))
   \<and> args_passed [''-u'', ''--update_model''] [(''-u'', '''')] = ['''']"
  by (simp add: parsed_value_def parse_args_def and_then_def argparser_def
        namespace_defaults_def args_passed_def)

section \<open>Properties of the configuration resolver\<close>

lemma resolve_config_succeeds:
  assumes "argv = [] \<or> (\<exists>args. parse_args argv = Inr args)"
    and "\<forall>v. config_contents = YOther v \<longrightarrow> \<not> truthy v"
  shows "\<exists>config. resolve_config argv (Inr config_contents) = Inr config"
  using assms unfolding resolve_config_def and_then_def
  by (cases config_contents) (auto split: sum.splits)

text \<open>
  C8. The settings are the built-in defaults, overwritten by the parsed command line
  (only when there are command-line arguments), overwritten by the mapping loaded from
  \<^verbatim>\<open>config.yaml\<close> (when it is truthy): for every key the file's value wins over the
  command line's, which wins over the default.
\<close>

theorem settings_precedence:
  assumes "resolve_config argv (Inr config_contents) = Inr config"
  shows "\<exists>cli file.
           (if argv = [] then cli = Map.empty else parse_args argv = Inr cli)
         \<and> file = (case config_contents of YMapping m \<Rightarrow> m | YOther v \<Rightarrow> Map.empty)
         \<and> config = (defaults ++ cli) ++ file
         \<and> (\<forall>k. config k =
               (case file k of
                  Some v \<Rightarrow> Some v
                | None \<Rightarrow> (case cli k of Some v \<Rightarrow> Some v | None \<Rightarrow> defaults k)))"
proof -
  let ?file = "case config_contents of YMapping m \<Rightarrow> m | YOther v \<Rightarrow> Map.empty"
  from assms obtain base where
    base: "(if argv \<noteq> [] then and_then (parse_args argv) (\<lambda>args. Inr (defaults ++ args))
            else Inr defaults) = Inr base"
    and merged: "(if yaml_truthy config_contents then
         (case config_contents of
            YMapping m \<Rightarrow> Inr (base ++ m)
          | YOther v \<Rightarrow> Inl (Exception ''TypeError'' ''unsupported operand type(s) for |''))
       else Inr base) = Inr config"
    unfolding resolve_config_def and_then_def by (auto split: sum.splits)
  from base obtain cli where
    cli: "if argv = [] then cli = Map.empty else parse_args argv = Inr cli"
    and b: "base = defaults ++ cli"
    unfolding and_then_def by (cases "argv = []") (auto split: sum.splits)
  from merged have c: "config = base ++ ?file"
    by (cases config_contents) (auto split: if_splits)
  have "\<forall>k. ((defaults ++ cli) ++ ?file) k =
               (case ?file k of
                  Some v \<Rightarrow> Some v
                | None \<Rightarrow> (case cli k of Some v \<Rightarrow> Some v | None \<Rightarrow> defaults k))"
    by (simp add: map_add_def split: option.splits)
  with cli b c show ?thesis by blast
qed

theorem settings_precedence_witness:
  "resolve_config [(''-c'', ''rb''), (''-t'', ''vit_supcon_model'')]
     (Inr (YMapping [''model_channels'' \<mapsto> VStr ''bg'', ''create_csv'' \<mapsto> VBool True]))
   = Inr ((defaults ++ namespace_defaults(''model_channels'' \<mapsto> VStr ''rb'',
                                           ''model_type'' \<mapsto> VStr ''vit_supcon_model''))
          ++ [''model_channels'' \<mapsto> VStr ''bg'', ''create_csv'' \<mapsto> VBool True])
   \<and> ((defaults ++ namespace_defaults(''model_channels'' \<mapsto> VStr ''rb'',
                                        ''model_type'' \<mapsto> VStr ''vit_supcon_model''))
          ++ [''model_channels'' \<mapsto> VStr ''bg'', ''create_csv'' \<mapsto> VBool True])
         ''model_channels'' = Some (VStr ''bg'')
   \<and> ((defaults ++ namespace_defaults(''model_channels'' \<mapsto> VStr ''rb'',
                                        ''model_type'' \<mapsto> VStr ''vit_supcon_model''))
          ++ [''model_channels'' \<mapsto> VStr ''bg'', ''create_csv'' \<mapsto> VBool True])
         ''model_type'' = Some (VStr ''vit_supcon_model'')
   \<and> ((defaults ++ namespace_defaults(''model_channels'' \<mapsto> VStr ''rb'',
                                        ''model_type'' \<mapsto> VStr ''vit_supcon_model''))
          ++ [''model_channels'' \<mapsto> VStr ''bg'', ''create_csv'' \<mapsto> VBool True])
         ''log'' = Some VLogger"
proof -
  let ?argv = "[(''-c'', ''rb''), (''-t'', ''vit_supcon_model'')]"
  let ?args = "namespace_defaults(''model_channels'' \<mapsto> VStr ''rb'',
                                  ''model_type'' \<mapsto> VStr ''vit_supcon_model'')"
  let ?m = "[''model_channels'' \<mapsto> VStr ''bg'', ''create_csv'' \<mapsto> VBool True]"
  let ?config = "(defaults ++ ?args) ++ ?m"
  have p: "parse_args ?argv = Inr ?args"
    by (simp add: parse_args_def argparser_def)
  have r: "resolve_config ?argv (Inr (YMapping ?m)) = Inr ?config"
    unfolding resolve_config_def p and_then_def by simp
  from settings_precedence [OF r] obtain cli yml where
    cli: "parse_args ?argv = Inr cli" and fl: "yml = ?m"
    and look: "\<forall>k. ?config k =
               (case yml k of
                  Some v \<Rightarrow> Some v
                | None \<Rightarrow> (case cli k of Some v \<Rightarrow> Some v | None \<Rightarrow> defaults k))"
    by auto
  from cli p have c: "cli = ?args" by simp
  have "?config ''model_channels'' = Some (VStr ''bg'')"
    unfolding look [rule_format] fl by simp
  moreover have "?config ''model_type'' = Some (VStr ''vit_supcon_model'')"
    unfolding look [rule_format] fl c by simp
  moreover have "?config ''log'' = Some VLogger"
    unfolding look [rule_format] fl c
    by (simp add: namespace_defaults_def argparser_def defaults_def)
  ultimately show ?thesis using r by simp
qed

section \<open>Sequencing\<close>

lemma bind_return [simp]: "bind (return x) f = f x"
  by (rule ext) (simp add: bind_def return_def)

lemma bind_lift_Inr [simp]: "bind (lift (Inr x)) f = f x"
  by (rule ext) (simp add: bind_def lift_def)

lemma bind_lift_Inl [simp]: "bind (lift (Inl e)) f w = (Inl e, w)"
  by (simp add: bind_def lift_def)

lemma bind_Inr: "m w = (Inr x, w') \<Longrightarrow> bind m f w = f x w'"
  by (simp add: bind_def)

lemma bind_Inl: "m w = (Inl e, w') \<Longrightarrow> bind m f w = (Inl e, w')"
  by (simp add: bind_def)

lemma bind_cases:
  obtains (raised) e w' where "m w = (Inl e, w')" "bind m f w = (Inl e, w')"
    | (returned) x w' where "m w = (Inr x, w')" "bind m f w = f x w'"
proof (cases "m w")
  case (Pair r w')
  show ?thesis
  proof (cases r)
    case (Inl e)
    with Pair show ?thesis by (intro raised [of e w']) (simp_all add: bind_def)
  next
    case (Inr x)
    with Pair show ?thesis by (intro returned [of x w']) (simp_all add: bind_def)
  qed
qed

lemma and_then_Inr [simp]: "and_then (Inr x) f = f x"
  by (simp add: and_then_def)

lemma and_then_Inl [simp]: "and_then (Inl e) f = Inl e"
  by (simp add: and_then_def)

section \<open>Frame rules\<close>

lemma keepsD: "keeps g m \<Longrightarrow> g (snd (m w)) = g w"
  by (simp add: keeps_def)

lemma keeps_result: "keeps g m \<Longrightarrow> m w = (r, w') \<Longrightarrow> g w' = g w"
  by (auto simp: keeps_def dest: spec [of _ w])

lemma keeps_return: "keeps g (return x)"
  by (simp add: keeps_def return_def)

lemma keeps_lift: "keeps g (lift r)"
  by (simp add: keeps_def lift_def)

lemma keeps_bind:
  assumes "keeps g m" "\<And>x. keeps g (f x)"
  shows "keeps g (bind m f)"
  unfolding keeps_def
proof
  fix w
  show "g (snd (bind m f w)) = g w"
  proof (cases rule: bind_cases [of m w f])
    case (raised e w')
    with keeps_result [OF assms(1) raised(1)] show ?thesis by simp
  next
    case (returned x w')
    with keeps_result [OF assms(1) returned(1)] keepsD [OF assms(2), of x w']
    show ?thesis by simp
  qed
qed

lemma keeps_if: "keeps g m \<Longrightarrow> keeps g n \<Longrightarrow> keeps g (if b then m else n)"
  by simp

lemma keeps_let: "(\<And>x. keeps g (f x)) \<Longrightarrow> keeps g (let x = v in f x)"
  by simp

lemmas keeps_intros = keeps_return keeps_lift keeps_bind keeps_if keeps_let

section \<open>Frames of the effects\<close>

lemma keeps_log_to:
  assumes "\<And>w l. fst l \<noteq> ERROR \<Longrightarrow> g (w\<lparr>log_lines := log_lines w @ [l]\<rparr>) = g w"
    and "lvl \<noteq> ERROR"
  shows "keeps g (log_to lvl msg)"
  using assms by (simp add: keeps_def log_to_def)

lemma keeps_isfile: "keeps g (isfile path)"
  by (simp add: keeps_def isfile_def)

lemma keeps_http_get:
  assumes "\<And>w v. g (w\<lparr>requests := v\<rparr>) = g w"
  shows "keeps g (http_get env url)"
  using assms by (simp add: keeps_def http_get_def)

lemma keeps_write_file:
  assumes "\<And>w v. g (w\<lparr>files := v\<rparr>) = g w"
  shows "keeps g (write_file env path content)"
  using assms by (simp add: keeps_def write_file_def split: option.splits)

lemma keeps_makedirs_io:
  assumes "\<And>w v. g (w\<lparr>made_dirs := v\<rparr>) = g w"
  shows "keeps g (makedirs_io env path)"
  using assms by (simp add: keeps_def makedirs_io_def split: option.splits)

lemma keeps_imread_io:
  assumes "\<And>w v. g (w\<lparr>imreads := v\<rparr>) = g w"
  shows "keeps g (imread_io env path)"
  using assms by (simp add: keeps_def imread_io_def)

lemma keeps_run_model_io:
  assumes "\<And>w v. g (w\<lparr>model_runs := v\<rparr>) = g w"
  shows "keeps g (run_model_io env model cell_data stem)"
  using assms by (simp add: keeps_def run_model_io_def)

lemma keeps_to_csv:
  assumes "\<And>w v. g (w\<lparr>result_csv := v\<rparr>) = g w"
  shows "keeps g (to_csv env df)"
  using assms by (simp add: keeps_def to_csv_def split: option.splits)

section \<open>Frames of the components\<close>

lemma keeps_download:
  assumes "\<And>w v. g (w\<lparr>requests := v\<rparr>) = g w"
    and "\<And>w v. g (w\<lparr>files := v\<rparr>) = g w"
    and "\<And>w l. fst l \<noteq> ERROR \<Longrightarrow> g (w\<lparr>log_lines := log_lines w @ [l]\<rparr>) = g w"
  shows "keeps g (download config env url_info artifact file_name)"
  unfolding download_def
  by (intro keeps_intros keeps_http_get keeps_write_file keeps_log_to assms) simp_all

lemma keeps_update_needed: "keeps g (update_needed config classifier_path encoder_path)"
  unfolding update_needed_def by (intro keeps_intros keeps_isfile)

lemma keeps_provision:
  assumes "\<And>w v. g (w\<lparr>requests := v\<rparr>) = g w"
    and "\<And>w v. g (w\<lparr>files := v\<rparr>) = g w"
    and "\<And>w l. fst l \<noteq> ERROR \<Longrightarrow> g (w\<lparr>log_lines := log_lines w @ [l]\<rparr>) = g w"
  shows "keeps g (provision config env)"
  unfolding provision_def
  by (intro keeps_intros keeps_update_needed keeps_download keeps_log_to assms) simp_all

lemma keeps_load_selected_model:
  "keeps g (load_selected_model config env encoder_path classifier_path)"
  unfolding load_selected_model_def
  by (intro keeps_intros) (simp add: keeps_def)

lemma keeps_prepare:
  assumes "\<And>w v. g (w\<lparr>requests := v\<rparr>) = g w"
    and "\<And>w v. g (w\<lparr>files := v\<rparr>) = g w"
    and "\<And>w l. fst l \<noteq> ERROR \<Longrightarrow> g (w\<lparr>log_lines := log_lines w @ [l]\<rparr>) = g w"
  shows "keeps g (prepare config env)"
  unfolding prepare_def
  by (intro keeps_intros keeps_provision keeps_load_selected_model assms)

lemma keeps_read_channel:
  assumes "\<And>w v. g (w\<lparr>imreads := v\<rparr>) = g w"
  shows "keeps g (read_channel letter i config env curr_set_arr cell_data)"
  unfolding read_channel_def
  by (intro keeps_intros keeps_imread_io assms)

lemma keeps_load_cell_data:
  assumes "\<And>w v. g (w\<lparr>imreads := v\<rparr>) = g w"
  shows "keeps g (load_cell_data config env curr_set_arr)"
  unfolding load_cell_data_def
  by (intro keeps_intros keeps_read_channel assms)

lemma keeps_process_set:
  assumes "\<And>w v. g (w\<lparr>made_dirs := v\<rparr>) = g w"
    and "\<And>w v. g (w\<lparr>imreads := v\<rparr>) = g w"
    and "\<And>w v. g (w\<lparr>model_runs := v\<rparr>) = g w"
    and "\<And>w l. fst l \<noteq> ERROR \<Longrightarrow> g (w\<lparr>log_lines := log_lines w @ [l]\<rparr>) = g w"
  shows "keeps g (process_set config env model curr_set df)"
  unfolding process_set_def Let_def
  by (intro keeps_intros keeps_makedirs_io keeps_load_cell_data keeps_run_model_io
        keeps_log_to assms) simp_all

lemma keeps_process_list:
  assumes "\<And>w v. g (w\<lparr>made_dirs := v\<rparr>) = g w"
    and "\<And>w v. g (w\<lparr>imreads := v\<rparr>) = g w"
    and "\<And>w v. g (w\<lparr>model_runs := v\<rparr>) = g w"
    and "\<And>w l. fst l \<noteq> ERROR \<Longrightarrow> g (w\<lparr>log_lines := log_lines w @ [l]\<rparr>) = g w"
  shows "keeps g (process_list config env model lines df)"
proof (induction lines arbitrary: df)
  case Nil
  show ?case by (simp add: keeps_return)
next
  case (Cons curr_set rest)
  show ?case
    unfolding process_list.simps
    by (intro keeps_intros keeps_process_set assms Cons.IH)
qed

lemma keeps_process_manifest:
  assumes "\<And>w v. g (w\<lparr>made_dirs := v\<rparr>) = g w"
    and "\<And>w v. g (w\<lparr>imreads := v\<rparr>) = g w"
    and "\<And>w v. g (w\<lparr>model_runs := v\<rparr>) = g w"
    and "\<And>w l. fst l \<noteq> ERROR \<Longrightarrow> g (w\<lparr>log_lines := log_lines w @ [l]\<rparr>) = g w"
    and "\<And>w v. g (w\<lparr>result_csv := v\<rparr>) = g w"
  shows "keeps g (process_manifest config env model df)"
proof (cases "path_list env")
  case None
  then show ?thesis by (simp add: process_manifest_def keeps_return)
next
  case (Some opened)
  show ?thesis
    unfolding process_manifest_def Some option.case
    by (intro keeps_intros keeps_process_list keeps_to_csv assms)
qed

lemma error_lines_append_other:
  "fst l \<noteq> ERROR \<Longrightarrow> error_lines (ls @ [l]) = error_lines ls"
  by (simp add: error_lines_def)

section \<open>Properties of the model provisioner\<close>

lemma download_other_status:
  assumes "lookup_url url_info config artifact = Inr url"
    and "requests_get env url = Inr (status_code, content)"
    and "status_code \<noteq> 200"
  shows "download config env url_info artifact file_name w =
           (Inr (), w\<lparr>requests := requests w @ [url],
                      log_lines := log_lines w
                        @ [(WARNING, Text (''  - '' @ file_name @ '' url not found.''))]\<rparr>)"
  using assms by (simp add: download_def bind_def http_get_def log_to_def)

lemma download_status_200:
  assumes "lookup_url url_info config artifact = Inr url"
    and "requests_get env url = Inr (200, content)"
    and "model_file config file_name = Inr path"
    and "open_write env path = None"
  shows "download config env url_info artifact file_name w =
           (Inr (), w\<lparr>requests := requests w @ [url],
                      files := (files w)(path \<mapsto> content),
                      log_lines := log_lines w
                        @ [(INFO, Text (''  - '' @ file_name @ '' updated.''))]\<rparr>)"
  using assms by (simp add: download_def bind_def http_get_def write_file_def log_to_def)

text \<open>
  C6. A download attempt (of the classifier or of the encoder) whose response has a status
  other than 200 changes no file on disk and logs one warning that names the artifact's
  file; a response with status 200 stores the body at the artifact's path, provided the
  file can be opened for writing.
\<close>

theorem download_by_status:
  assumes "lookup_url url_info config artifact = Inr url"
    and "requests_get env url = Inr (status_code, content)"
  shows "(status_code \<noteq> 200 \<longrightarrow>
            download config env url_info artifact file_name w =
              (Inr (), w\<lparr>requests := requests w @ [url],
                         log_lines := log_lines w
                           @ [(WARNING, Text (''  - '' @ file_name @ '' url not found.''))]\<rparr>)
            \<and> files (snd (download config env url_info artifact file_name w)) = files w)
       \<and> (status_code = 200 \<longrightarrow> model_file config file_name = Inr path
            \<longrightarrow> open_write env path = None \<longrightarrow>
            download config env url_info artifact file_name w =
              (Inr (), w\<lparr>requests := requests w @ [url],
                         files := (files w)(path \<mapsto> content),
                         log_lines := log_lines w
                           @ [(INFO, Text (''  - '' @ file_name @ '' updated.''))]\<rparr>)
            \<and> files (snd (download config env url_info artifact file_name w)) path
                = Some content)"
proof (intro conjI impI)
  assume other: "status_code \<noteq> 200"
  note eq = download_other_status [OF assms other, where file_name = file_name and w = w]
  show "download config env url_info artifact file_name w =
          (Inr (), w\<lparr>requests := requests w @ [url],
                     log_lines := log_lines w
                       @ [(WARNING, Text (''  - '' @ file_name @ '' url not found.''))]\<rparr>)"
    by (rule eq)
  show "files (snd (download config env url_info artifact file_name w)) = files w"
    unfolding eq by simp
next
  assume ok: "status_code = 200" and path: "model_file config file_name = Inr path"
    and writable: "open_write env path = None"
  from assms(2) ok have r: "requests_get env url = Inr (200, content)" by simp
  note eq = download_status_200 [OF assms(1) r path writable, where w = w]
  show "download config env url_info artifact file_name w =
          (Inr (), w\<lparr>requests := requests w @ [url],
                     files := (files w)(path \<mapsto> content),
                     log_lines := log_lines w
                       @ [(INFO, Text (''  - '' @ file_name @ '' updated.''))]\<rparr>)"
    by (rule eq)
  show "files (snd (download config env url_info artifact file_name w)) path = Some content"
    unfolding eq by simp
qed

lemma example_model_files:
  "model_file example_config ''classifier.pth''
     = Inr ''models/rb/mae_contrast_supcon_model/classifier.pth''"
  "model_file example_config ''encoder.pth''
     = Inr ''models/rb/mae_contrast_supcon_model/encoder.pth''"
  "model_file example_config ''model_config.yaml''
     = Inr ''models/rb/mae_contrast_supcon_model/model_config.yaml''"
  by (simp_all add: model_file_def example_config_def defaults_def config_get_def as_str_def
        os_path_join_def path_join2_def startswith_def)

lemma example_urls_found:
  "lookup_url example_urls example_config ''classifier'' = Inr ''https://host/c''"
  "lookup_url example_urls example_config ''encoder'' = Inr ''https://host/e''"
  by (simp_all add: lookup_url_def example_urls_def example_config_def defaults_def
        config_get_def as_str_def dict_get_def)

theorem download_by_status_witness:
  "lookup_url example_urls example_config ''classifier'' = Inr ''https://host/c''
   \<and> requests_get example_env ''https://host/c'' = Inr (404, ''gone'')
   \<and> files (snd (download example_config example_env example_urls ''classifier''
                     ''classifier.pth'' example_world))
        ''models/rb/mae_contrast_supcon_model/classifier.pth'' = Some ''old classifier''
   \<and> log_lines (snd (download example_config example_env example_urls ''classifier''
                        ''classifier.pth'' example_world))
        = [(WARNING, Text ''  - classifier.pth url not found.'')]
   \<and> lookup_url example_urls example_config ''encoder'' = Inr ''https://host/e''
   \<and> requests_get example_env ''https://host/e'' = Inr (200, ''new weights'')
   \<and> model_file example_config ''encoder.pth''
        = Inr ''models/rb/mae_contrast_supcon_model/encoder.pth''
   \<and> open_write example_env ''models/rb/mae_contrast_supcon_model/encoder.pth'' = None
   \<and> files (snd (download example_config example_env example_urls ''encoder''
                     ''encoder.pth'' example_world))
        ''models/rb/mae_contrast_supcon_model/encoder.pth'' = Some ''new weights''"
proof -
  have c: "requests_get example_env ''https://host/c'' = Inr (404, ''gone'')"
    and e: "requests_get example_env ''https://host/e'' = Inr (200, ''new weights'')"
    and o: "open_write example_env ''models/rb/mae_contrast_supcon_model/encoder.pth'' = None"
    by (simp_all add: example_env_def)
  from download_by_status [OF example_urls_found(1) c,
      where file_name = "''classifier.pth''" and w = example_world]
  have "download example_config example_env example_urls ''classifier'' ''classifier.pth''
          example_world
        = (Inr (), example_world\<lparr>requests := requests example_world @ [''https://host/c''],
             log_lines := log_lines example_world
               @ [(WARNING, Text (''  - '' @ ''classifier.pth'' @ '' url not found.''))]\<rparr>)"
    by simp
  then have 1: "files (snd (download example_config example_env example_urls ''classifier''
                     ''classifier.pth'' example_world))
        ''models/rb/mae_contrast_supcon_model/classifier.pth'' = Some ''old classifier''"
    and 2: "log_lines (snd (download example_config example_env example_urls ''classifier''
                        ''classifier.pth'' example_world))
        = [(WARNING, Text ''  - classifier.pth url not found.'')]"
    by (simp_all add: example_world_def)
  from download_by_status [OF example_urls_found(2) e,
      where file_name = "''encoder.pth''" and w = example_world]
    example_model_files(2) o
  have 3: "files (snd (download example_config example_env example_urls ''encoder''
                     ''encoder.pth'' example_world))
        ''models/rb/mae_contrast_supcon_model/encoder.pth'' = Some ''new weights''"
    by blast
  from example_urls_found c e o example_model_files(2) 1 2 3 show ?thesis by blast
qed

lemma bind_keeps_from:
  assumes "g (snd (m w)) = g w" "\<And>x. keeps g (f x)"
  shows "g (snd (bind m f w)) = g w"
proof (cases rule: bind_cases [of m w f])
  case (raised e w')
  with assms(1) show ?thesis by simp
next
  case (returned x w')
  with assms(1) keepsD [OF assms(2), of x w'] show ?thesis by simp
qed

lemma provision_models_present:
  assumes "model_file config ''classifier.pth'' = Inr classifier_path"
    and "files w classifier_path \<noteq> None"
    and "model_file config ''encoder.pth'' = Inr encoder_path"
    and "files w encoder_path \<noteq> None"
    and "config ''update_model'' = Some v" and "\<not> truthy v"
  shows "provision config env w = (Inr (encoder_path, classifier_path), w)"
proof -
  have "update_needed config classifier_path encoder_path w = (Inr False, w)"
    using assms(2,4,5,6)
    by (simp add: update_needed_def bind_def isfile_def return_def lift_def config_get_def)
  then show ?thesis
    using assms(1,3) by (simp add: provision_def bind_def return_def)
qed

lemma main_requests_models_present:
  assumes "model_file config ''classifier.pth'' = Inr classifier_path"
    and "files w classifier_path \<noteq> None"
    and "model_file config ''encoder.pth'' = Inr encoder_path"
    and "files w encoder_path \<noteq> None"
    and "config ''update_model'' = Some v" and "\<not> truthy v"
  shows "requests (main config env w) = requests w"
proof -
  have p: "requests (snd (provision config env w)) = requests w"
    unfolding provision_models_present [OF assms] by simp
  have "requests (snd (prepare config env w)) = requests w"
    unfolding prepare_def using p
    by (rule bind_keeps_from) (intro keeps_intros keeps_load_selected_model)
  then have t: "requests (snd (try_block config env w)) = requests w"
    unfolding try_block_def
    by (rule bind_keeps_from) (intro keeps_process_manifest; simp)
  obtain r w' where tb: "try_block config env w = (r, w')" by (cases "try_block config env w")
  with t have "requests w' = requests w" by simp
  with tb show ?thesis by (cases r) (simp_all add: main_def log_to_def)
qed

text \<open>
  C7. In a run whose settings have a false \<^verbatim>\<open>update_model\<close> and whose classifier and
  encoder weight files both exist at their computed paths, \<^verbatim>\<open>requests.get\<close> is never
  called: the trace of requests after the run is the one before it.
\<close>

theorem no_requests_when_models_present:
  assumes "resolve_config argv config_yaml = Inr config"
    and "config ''update_model'' = Some v" and "\<not> truthy v"
    and "model_file config ''classifier.pth'' = Inr classifier_path"
    and "files w classifier_path \<noteq> None"
    and "model_file config ''encoder.pth'' = Inr encoder_path"
    and "files w encoder_path \<noteq> None"
  shows "requests (snd (script argv config_yaml env w)) = requests w
       \<and> requests (main config env w) = requests w"
proof
  show m: "requests (main config env w) = requests w"
    using assms(4,5,6,7,2,3) by (rule main_requests_models_present)
  show "requests (snd (script argv config_yaml env w)) = requests w"
  proof (cases "config ''log'' = Some VLogger")
    case False
    with assms(1) show ?thesis by (simp add: script_def)
  next
    case True
    let ?w4 = "w\<lparr>log_lines := log_lines w @ [(INFO, Text (''Start: '' @ start_time env)),
                 (INFO, Text ''Parameters used:''), (INFO, Dump config),
                 (INFO, Text ''----------'')]\<rparr>"
    have "requests (main config env ?w4) = requests ?w4"
      using assms(4) _ assms(6) _ assms(2,3)
      by (rule main_requests_models_present) (simp_all add: assms(5,7))
    with True assms(1) show ?thesis by (simp add: script_def log_to_def Let_def)
  qed
qed

theorem no_requests_when_models_present_witness:
  "resolve_config []
     (Inr (YMapping [''model_channels'' \<mapsto> VStr ''rb'', ''create_csv'' \<mapsto> VBool True]))
     = Inr example_config
   \<and> example_config ''update_model'' = Some (VBool False)
   \<and> \<not> truthy (VBool False)
   \<and> model_file example_config ''classifier.pth''
        = Inr ''models/rb/mae_contrast_supcon_model/classifier.pth''
   \<and> files example_world ''models/rb/mae_contrast_supcon_model/classifier.pth'' \<noteq> None
   \<and> model_file example_config ''encoder.pth''
        = Inr ''models/rb/mae_contrast_supcon_model/encoder.pth''
   \<and> files example_world ''models/rb/mae_contrast_supcon_model/encoder.pth'' \<noteq> None
   \<and> requests (snd (script []
        (Inr (YMapping [''model_channels'' \<mapsto> VStr ''rb'', ''create_csv'' \<mapsto> VBool True]))
        example_env example_world)) = []"
proof -
  have r: "resolve_config []
     (Inr (YMapping [''model_channels'' \<mapsto> VStr ''rb'', ''create_csv'' \<mapsto> VBool True]))
     = Inr example_config"
    by (simp add: resolve_config_def example_config_def)
  have u: "example_config ''update_model'' = Some (VBool False)"
    by (simp add: example_config_def defaults_def)
  have t: "\<not> truthy (VBool False)" by simp
  have c: "files example_world ''models/rb/mae_contrast_supcon_model/classifier.pth'' \<noteq> None"
    and e: "files example_world ''models/rb/mae_contrast_supcon_model/encoder.pth'' \<noteq> None"
    by (simp_all add: example_world_def)
  from no_requests_when_models_present
    [OF r u t example_model_files(1) c example_model_files(2) e, where env = example_env]
  have "requests (snd (script []
        (Inr (YMapping [''model_channels'' \<mapsto> VStr ''rb'', ''create_csv'' \<mapsto> VBool True]))
        example_env example_world)) = requests example_world"
    by blast
  then have "requests (snd (script []
        (Inr (YMapping [''model_channels'' \<mapsto> VStr ''rb'', ''create_csv'' \<mapsto> VBool True]))
        example_env example_world)) = []"
    by (simp add: example_world_def)
  with r u t example_model_files(1,2) c e show ?thesis by blast
qed

section \<open>Properties of the batch loader\<close>

lemma reads_withinD:
  "reads_within S m \<Longrightarrow> \<exists>trace. imreads (snd (m w)) = imreads w @ trace \<and> set trace \<subseteq> S"
  by (simp add: reads_within_def)

lemma reads_within_keeps: "keeps imreads m \<Longrightarrow> reads_within S m"
  by (simp add: reads_within_def keeps_def)

lemma reads_within_bind:
  assumes "reads_within S m" "\<And>x. reads_within S (f x)"
  shows "reads_within S (bind m f)"
  unfolding reads_within_def
proof
  fix w
  from reads_withinD [OF assms(1), of w] obtain t1 where
    t1: "imreads (snd (m w)) = imreads w @ t1" "set t1 \<subseteq> S" by blast
  show "\<exists>trace. imreads (snd (bind m f w)) = imreads w @ trace \<and> set trace \<subseteq> S"
  proof (cases rule: bind_cases [of m w f])
    case (raised e w')
    with t1 show ?thesis by auto
  next
    case (returned x w')
    from reads_withinD [OF assms(2), of x w'] obtain t2 where
      t2: "imreads (snd (f x w')) = imreads w' @ t2" "set t2 \<subseteq> S" by blast
    from returned t1 t2 have "imreads (snd (bind m f w)) = imreads w @ (t1 @ t2)" by simp
    moreover from t1 t2 have "set (t1 @ t2) \<subseteq> S" by simp
    ultimately show ?thesis by blast
  qed
qed

lemma reads_within_if:
  "reads_within S m \<Longrightarrow> reads_within S n \<Longrightarrow> reads_within S (if b then m else n)"
  by simp

lemma reads_within_imread_io: "path \<in> S \<Longrightarrow> reads_within S (imread_io env path)"
  by (simp add: reads_within_def imread_io_def)

lemma read_channel_wanted:
  assumes "config_get config ''model_channels'' = Inr (VStr chs)"
  shows "read_channel letter i config env curr_set_arr cell_data =
           (if letter \<in> set chs then
              bind (lift (py_nth curr_set_arr i)) (\<lambda>field.
              bind (imread_io env (strip field)) (\<lambda>img.
              return (cell_data @ [[img]])))
            else return cell_data)"
  using assms by (simp add: read_channel_def)

lemma reads_within_read_channel:
  assumes "config_get config ''model_channels'' = Inr (VStr chs)"
    and "letter \<in> set chs \<Longrightarrow> i < length curr_set_arr \<Longrightarrow> strip (curr_set_arr ! i) \<in> S"
  shows "reads_within S (read_channel letter i config env curr_set_arr cell_data)"
proof (cases "letter \<in> set chs \<and> i < length curr_set_arr")
  case True
  with assms(2) have "strip (curr_set_arr ! i) \<in> S" by simp
  with True show ?thesis
    unfolding read_channel_wanted [OF assms(1)]
    by (simp add: py_nth_def reads_within_bind reads_within_imread_io reads_within_keeps
          keeps_return)
next
  case False
  then show ?thesis
    unfolding read_channel_wanted [OF assms(1)]
    by (auto simp: py_nth_def reads_within_def return_def)
qed

text \<open>The paths of the channel arr whose letter is in the channel set.\<close>

lemma reads_within_load_cell_data:
  assumes "config_get config ''model_channels'' = Inr (VStr chs)"
  shows "reads_within
           {strip (curr_set_arr ! i) | i. i < 4 \<and> i < length curr_set_arr \<and> ''rybg'' ! i \<in> set chs}
           (load_cell_data config env curr_set_arr)"
  unfolding load_cell_data_def
  by (intro reads_within_bind reads_within_read_channel [OF assms]; force)

lemma reads_within_process_set:
  assumes "config_get config ''model_channels'' = Inr (VStr chs)"
  shows "reads_within
           {strip (str_split (CHR '','') curr_set ! i) | i.
              i < 4 \<and> i < length (str_split (CHR '','') curr_set) \<and> ''rybg'' ! i \<in> set chs}
           (process_set config env model curr_set df)"
  unfolding process_set_def Let_def
  by (intro reads_within_bind reads_within_if reads_within_load_cell_data [OF assms]
        reads_within_keeps keeps_intros keeps_makedirs_io keeps_run_model_io keeps_log_to)
     simp_all

lemma read_channel_cong:
  assumes "config_get config ''model_channels'' = Inr (VStr chs)"
    and "letter \<in> set chs \<Longrightarrow> py_nth arr' i = py_nth arr i"
  shows "read_channel letter i config env arr' = read_channel letter i config env arr"
proof (rule ext)
  fix cell_data
  show "read_channel letter i config env arr' cell_data
          = read_channel letter i config env arr cell_data"
    unfolding read_channel_wanted [OF assms(1)] using assms(2) by simp
qed

lemma load_cell_data_cong:
  assumes "config_get config ''model_channels'' = Inr (VStr chs)"
    and "CHR ''r'' \<in> set chs \<Longrightarrow> py_nth arr' 0 = py_nth arr 0"
    and "CHR ''y'' \<in> set chs \<Longrightarrow> py_nth arr' 1 = py_nth arr 1"
    and "CHR ''b'' \<in> set chs \<Longrightarrow> py_nth arr' 2 = py_nth arr 2"
    and "CHR ''g'' \<in> set chs \<Longrightarrow> py_nth arr' 3 = py_nth arr 3"
  shows "load_cell_data config env arr' = load_cell_data config env arr"
  unfolding load_cell_data_def
  by (simp only: read_channel_cong [OF assms(1), OF assms(2)]
        read_channel_cong [OF assms(1), OF assms(3)]
        read_channel_cong [OF assms(1), OF assms(4)]
        read_channel_cong [OF assms(1), OF assms(5)])

lemma process_set_cong:
  assumes "config_get config ''model_channels'' = Inr (VStr chs)"
    and "CHR ''r'' \<in> set chs \<Longrightarrow> py_nth (str_split (CHR '','') curr_set') 0 = py_nth (str_split (CHR '','') curr_set) 0"
    and "CHR ''y'' \<in> set chs \<Longrightarrow> py_nth (str_split (CHR '','') curr_set') 1 = py_nth (str_split (CHR '','') curr_set) 1"
    and "CHR ''b'' \<in> set chs \<Longrightarrow> py_nth (str_split (CHR '','') curr_set') 2 = py_nth (str_split (CHR '','') curr_set) 2"
    and "CHR ''g'' \<in> set chs \<Longrightarrow> py_nth (str_split (CHR '','') curr_set') 3 = py_nth (str_split (CHR '','') curr_set) 3"
    and "py_nth (str_split (CHR '','') curr_set') 4 = py_nth (str_split (CHR '','') curr_set) 4"
    and "py_nth (str_split (CHR '','') curr_set') 5 = py_nth (str_split (CHR '','') curr_set) 5"
  shows "process_set config env model curr_set' df = process_set config env model curr_set df"
  unfolding process_set_def Let_def
  by (simp only: load_cell_data_cong [OF assms(1), OF assms(2) assms(3) assms(4) assms(5)]
        assms(6) assms(7))

lemma py_nth_agree:
  assumes "length arr' = length arr"
    and "i < length arr \<Longrightarrow> arr' ! i = arr ! i"
  shows "py_nth arr' i = py_nth arr i"
  using assms by (simp add: py_nth_def)

text \<open>
  C5. Let the channel set be the string \<open>chs\<close>. The only paths a manifest row passes to
  \<^verbatim>\<open>imread\<close> are those of the channel fields (r, y, b, g at positions 0 to 3) whose
  letter occurs in \<open>chs\<close>; and two rows with the same number of fields that differ only in
  channel fields whose letter does not occur in \<open>chs\<close> are processed with the same outcome,
  the same table and the same effects. With \<open>chs = rb\<close> these are the y and g fields.
\<close>

theorem unselected_channels_never_read:
  assumes "config_get config ''model_channels'' = Inr (VStr chs)"
    and "length (str_split (CHR '','') curr_set') = length (str_split (CHR '','') curr_set)"
    and "\<forall>i<length (str_split (CHR '','') curr_set).
           str_split (CHR '','') curr_set' ! i \<noteq> str_split (CHR '','') curr_set ! i
           \<longrightarrow> i < 4 \<and> ''rybg'' ! i \<notin> set chs"
  shows "process_set config env model curr_set' df w = process_set config env model curr_set df w
       \<and> (\<exists>trace. imreads (snd (process_set config env model curr_set df w))
                     = imreads w @ trace
                 \<and> set trace \<subseteq> {strip (str_split (CHR '','') curr_set ! i) | i.
                       i < 4 \<and> i < length (str_split (CHR '','') curr_set)
                       \<and> ''rybg'' ! i \<in> set chs})"
proof
  let ?arr = "str_split (CHR '','') curr_set" and ?arr' = "str_split (CHR '','') curr_set'"
  have r: "CHR ''r'' \<in> set chs \<Longrightarrow> py_nth ?arr' 0 = py_nth ?arr 0"
    using assms(3) by (intro py_nth_agree assms(2)) auto
  have y: "CHR ''y'' \<in> set chs \<Longrightarrow> py_nth ?arr' 1 = py_nth ?arr 1"
    using assms(3) by (intro py_nth_agree assms(2)) auto
  have b: "CHR ''b'' \<in> set chs \<Longrightarrow> py_nth ?arr' 2 = py_nth ?arr 2"
    using assms(3) by (intro py_nth_agree assms(2)) auto
  have g: "CHR ''g'' \<in> set chs \<Longrightarrow> py_nth ?arr' 3 = py_nth ?arr 3"
    using assms(3) by (intro py_nth_agree assms(2)) auto
  have d: "py_nth ?arr' 4 = py_nth ?arr 4"
    using assms(3) by (intro py_nth_agree assms(2)) auto
  have n: "py_nth ?arr' 5 = py_nth ?arr 5"
    using assms(3) by (intro py_nth_agree assms(2)) auto
  have "process_set config env model curr_set' df = process_set config env model curr_set df"
    using assms(1) r y b g d n by (rule process_set_cong)
  then show "process_set config env model curr_set' df w
               = process_set config env model curr_set df w"
    by simp
  show "\<exists>trace. imreads (snd (process_set config env model curr_set df w)) = imreads w @ trace
          \<and> set trace \<subseteq> {strip (?arr ! i) | i. i < 4 \<and> i < length ?arr \<and> ''rybg'' ! i \<in> set chs}"
    using reads_within_process_set [OF assms(1)] by (rule reads_withinD)
qed

lemma example_row_fields:
  "str_split (CHR '','') ''r1.png,y1.png,b1.png,g1.png,out,cell1\<newline>''
     = [''r1.png'', ''y1.png'', ''b1.png'', ''g1.png'', ''out'', ''cell1\<newline>'']"
  "str_split (CHR '','') ''r1.png,elsewhere/y.png,b1.png,,out,cell1\<newline>''
     = [''r1.png'', ''elsewhere/y.png'', ''b1.png'', '''', ''out'', ''cell1\<newline>'']"
  by simp_all

lemma example_channels: "config_get example_config ''model_channels'' = Inr (VStr ''rb'')"
  by (simp add: config_get_def example_config_def)

lemma strip_example_paths: "strip ''r1.png'' = ''r1.png''" "strip ''b1.png'' = ''b1.png''"
  by (simp_all add: strip_def py_isspace_def)

theorem unselected_channels_never_read_witness:
  "config_get example_config ''model_channels'' = Inr (VStr ''rb'')
   \<and> process_set example_config example_env ()
         ''r1.png,elsewhere/y.png,b1.png,,out,cell1\<newline>''
         \<lparr>columns = final_columns, rows = []\<rparr> example_world
       = process_set example_config example_env ()
           ''r1.png,y1.png,b1.png,g1.png,out,cell1\<newline>''
           \<lparr>columns = final_columns, rows = []\<rparr> example_world
   \<and> (\<exists>trace. imreads (snd (process_set example_config example_env ()
                     ''r1.png,y1.png,b1.png,g1.png,out,cell1\<newline>''
                     \<lparr>columns = final_columns, rows = []\<rparr> example_world))
                 = imreads example_world @ trace
             \<and> set trace \<subseteq> {''r1.png'', ''b1.png''})"
proof -
  let ?l = "''r1.png,y1.png,b1.png,g1.png,out,cell1\<newline>''"
  let ?l' = "''r1.png,elsewhere/y.png,b1.png,,out,cell1\<newline>''"
  have len: "length (str_split (CHR '','') ?l') = length (str_split (CHR '','') ?l)"
    unfolding example_row_fields by simp
  have diff: "\<forall>i<length (str_split (CHR '','') ?l).
           str_split (CHR '','') ?l' ! i \<noteq> str_split (CHR '','') ?l ! i
           \<longrightarrow> i < 4 \<and> ''rybg'' ! i \<notin> set ''rb''"
    unfolding example_row_fields
  proof (intro allI impI)
    fix i
    assume "i < length [''r1.png'', ''y1.png'', ''b1.png'', ''g1.png'', ''out'', ''cell1\<newline>'']"
    then have "i = 0 \<or> i = 1 \<or> i = 2 \<or> i = 3 \<or> i = 4 \<or> i = 5" by auto
    moreover assume
      "[''r1.png'', ''elsewhere/y.png'', ''b1.png'', '''', ''out'', ''cell1\<newline>''] ! i
         \<noteq> [''r1.png'', ''y1.png'', ''b1.png'', ''g1.png'', ''out'', ''cell1\<newline>''] ! i"
    ultimately have "i = 1 \<or> i = 3" by auto
    then show "i < 4 \<and> ''rybg'' ! i \<notin> set ''rb''" by auto
  qed
  have sub: "{strip (str_split (CHR '','') ?l ! i) | i.
                i < 4 \<and> i < length (str_split (CHR '','') ?l) \<and> ''rybg'' ! i \<in> set ''rb''}
             \<subseteq> {''r1.png'', ''b1.png''}"
    unfolding example_row_fields
  proof
    fix p
    assume "p \<in> {strip ([''r1.png'', ''y1.png'', ''b1.png'', ''g1.png'', ''out'',
                          ''cell1\<newline>''] ! i) | i.
                i < 4 \<and> i < length [''r1.png'', ''y1.png'', ''b1.png'', ''g1.png'', ''out'',
                                      ''cell1\<newline>'']
                \<and> ''rybg'' ! i \<in> set ''rb''}"
    then obtain i where i: "i < 4" "''rybg'' ! i \<in> set ''rb''"
      and p: "p = strip ([''r1.png'', ''y1.png'', ''b1.png'', ''g1.png'', ''out'',
                          ''cell1\<newline>''] ! i)"
      by blast
    from i(1) have "i = 0 \<or> i = 1 \<or> i = 2 \<or> i = 3" by auto
    with i(2) have "i = 0 \<or> i = 2" by auto
    with p show "p \<in> {''r1.png'', ''b1.png''}" by (auto simp: strip_example_paths)
  qed
  from unselected_channels_never_read [OF example_channels len diff,
      where env = example_env and model = "()"
        and df = "\<lparr>columns = final_columns, rows = []\<rparr>" and w = example_world]
    sub example_channels
  show ?thesis by (meson subset_trans)
qed

section \<open>Properties of the result writer\<close>

lemma bind_returns:
  assumes "bind m f w = (Inr y, w'')"
  obtains x w' where "m w = (Inr x, w')" "f x w' = (Inr y, w'')"
proof (cases rule: bind_cases [of m w f])
  case (raised e w')
  with assms show ?thesis by simp
next
  case (returned x w')
  with assms that show ?thesis by simp
qed

lemma lift_returns:
  assumes "lift r w = (Inr x, w')"
  obtains "r = Inr x" "w' = w"
  using assms by (simp add: lift_def)

lemma and_then_returns:
  assumes "and_then r f = Inr y"
  obtains x where "r = Inr x" "f x = Inr y"
  using assms by (cases r) simp_all

lemma length_final_columns: "length final_columns = 1572"
  by (simp add: final_columns_def)

lemma length_new_row:
  "length (new_row out_name max_name max_class names_3 classes_3 probabilities embedding)
     = 5 + length probabilities + length embedding"
  by (simp add: new_row_def)

lemma df_append_returns:
  assumes "df_append df row = Inr df'"
  shows "rows df' = rows df @ [row] \<and> columns df' = columns df
       \<and> length row = length (columns df)"
  using assms by (auto simp: df_append_def split: if_splits)

lemma class_name_returns: "class_name env i = Inr name \<Longrightarrow> CLASS2NAME env i = Some name"
  by (simp add: class_name_def split: option.splits)

lemma length_top3_le: "length (max_3_location_classes probabilities) \<le> 3"
  by (simp add: max_3_location_classes_def)

lemma max_3_location_names_returns:
  assumes "max_3_location_names env classes_3 = Inr names_3"
  obtains name2 name1 name0 where
    "2 < length classes_3"
    "CLASS2NAME env (classes_3 ! 2) = Some name2"
    "CLASS2NAME env (classes_3 ! 1) = Some name1"
    "CLASS2NAME env (classes_3 ! 0) = Some name0"
    "names_3 = name2 @ '','' @ name1 @ '','' @ name0"
proof -
  from assms obtain i2 name2 i1 name1 i0 name0 where
    "py_nth classes_3 2 = Inr i2" "class_name env i2 = Inr name2"
    "py_nth classes_3 1 = Inr i1" "class_name env i1 = Inr name1"
    "py_nth classes_3 0 = Inr i0" "class_name env i0 = Inr name0"
    "names_3 = name2 @ '','' @ name1 @ '','' @ name0"
    unfolding max_3_location_names_def by (elim and_then_returns) auto
  then show ?thesis
    by (intro that [of name2 name1 name0])
       (auto simp: py_nth_def class_name_returns split: if_splits)
qed

lemma run_model_io_returns:
  assumes "run_model_io env model cell_data stem w = (Inr result, w')"
  obtains "run_model env model cell_data stem = Inr (fst result, snd result)"
  using assms by (simp add: run_model_io_def)

lemma return_returns:
  assumes "return x w = (Inr y, w')"
  obtains "y = x" "w' = w"
  using assms by (simp add: return_def)

lemma append_or_keep_returns:
  assumes "(if c then lift r else return df) w = (Inr df', w')"
  obtains "if c then r = Inr df' else df' = df"
  using assms by (simp add: lift_def return_def split: if_splits)

lemma process_set_returns:
  assumes "process_set config env model curr_set df w = (Inr df', w')"
  shows "\<exists>out_name cell_data stem embedding probabilities max_class max_name names_3 create_csv.
      py_nth (str_split (CHR '','') curr_set) 5 = Inr out_name
    \<and> run_model env model cell_data stem = Inr (embedding, probabilities)
    \<and> max_location_class probabilities = Inr max_class
    \<and> class_name env max_class = Inr max_name
    \<and> max_3_location_names env (max_3_location_classes probabilities) = Inr names_3
    \<and> config_get config ''create_csv'' = Inr create_csv
    \<and> (if truthy create_csv
        then df_append df (new_row out_name max_name max_class names_3
               (max_3_location_classes probabilities) probabilities embedding) = Inr df'
        else df' = df)"
  using assms unfolding process_set_def Let_def
  apply (elim bind_returns)
  apply (erule run_model_io_returns)
  apply (erule append_or_keep_returns)
  apply (erule return_returns)
  apply (elim lift_returns)
  apply hypsubst
  apply (intro exI conjI)
        apply assumption+
  done

text \<open>
  C3. In CSV mode, processing a manifest row that raises nothing appends exactly one row to
  the table. The row holds, in this order: the stripped base name (field 5), the name of
  the top-1 class, its index, the names of the top-3 classes joined by commas from the
  most to the least probable, the top-3 indices joined by commas (in the order of the
  top-3 list, least probable first), every probability and every embedding value. It has
  one cell for each column; with the columns of lines 87 to 95 that makes 31 + 1536
  values, the 1536 embedding values after the 31 probabilities of the model.
\<close>

theorem csv_row_appended:
  assumes "config_get config ''create_csv'' = Inr v" and "truthy v"
    and "process_set config env model curr_set df w = (Inr df', w')"
  shows "\<exists>out_name cell_data stem embedding probabilities max_class max_name name2 name1 name0.
      py_nth (str_split (CHR '','') curr_set) 5 = Inr out_name
    \<and> run_model env model cell_data stem = Inr (embedding, probabilities)
    \<and> max_location_class probabilities = Inr max_class
    \<and> CLASS2NAME env max_class = Some max_name
    \<and> length (max_3_location_classes probabilities) = 3
    \<and> CLASS2NAME env (max_3_location_classes probabilities ! 2) = Some name2
    \<and> CLASS2NAME env (max_3_location_classes probabilities ! 1) = Some name1
    \<and> CLASS2NAME env (max_3_location_classes probabilities ! 0) = Some name0
    \<and> probabilities ! (max_3_location_classes probabilities ! 0)
          \<le> probabilities ! (max_3_location_classes probabilities ! 1)
    \<and> probabilities ! (max_3_location_classes probabilities ! 1)
          \<le> probabilities ! (max_3_location_classes probabilities ! 2)
    \<and> rows df' = rows df @
          [[CStr (strip out_name), CStr max_name, CInt max_class,
            CStr (name2 @ '','' @ name1 @ '','' @ name0),
            CStr (str_join '','' (map str_nat (max_3_location_classes probabilities)))]
           @ map CNum probabilities @ map CNum embedding]
    \<and> columns df' = columns df
    \<and> 5 + length probabilities + length embedding = length (columns df)
    \<and> (columns df = final_columns \<longrightarrow>
          length probabilities + length embedding = 31 + 1536
          \<and> (length probabilities = 31 \<longleftrightarrow> length embedding = 1536))"
proof -
  from process_set_returns [OF assms(3)] obtain out_name cell_data stem embedding
      probabilities max_class max_name names_3 create_csv where
    name: "py_nth (str_split (CHR '','') curr_set) 5 = Inr out_name"
    and run: "run_model env model cell_data stem = Inr (embedding, probabilities)"
    and top1: "max_location_class probabilities = Inr max_class"
    and top1_name: "class_name env max_class = Inr max_name"
    and names: "max_3_location_names env (max_3_location_classes probabilities) = Inr names_3"
    and csv: "config_get config ''create_csv'' = Inr create_csv"
    and app: "if truthy create_csv
        then df_append df (new_row out_name max_name max_class names_3
               (max_3_location_classes probabilities) probabilities embedding) = Inr df'
        else df' = df"
    by blast
  let ?t = "max_3_location_classes probabilities"
  from names obtain name2 name1 name0 where
    long: "2 < length ?t"
    and n2: "CLASS2NAME env (?t ! 2) = Some name2"
    and n1: "CLASS2NAME env (?t ! 1) = Some name1"
    and n0: "CLASS2NAME env (?t ! 0) = Some name0"
    and n3: "names_3 = name2 @ '','' @ name1 @ '','' @ name0"
    by (rule max_3_location_names_returns)
  from long length_top3_le [of probabilities] have l3: "length ?t = 3" by simp
  have ord: "probabilities ! (?t ! 0) \<le> probabilities ! (?t ! 1)
           \<and> probabilities ! (?t ! 1) \<le> probabilities ! (?t ! 2)"
    using top3_sorted l3 by (rule sorted3)
  from csv assms(1,2) have "truthy create_csv" by simp
  with app have "df_append df (new_row out_name max_name max_class names_3 ?t
                   probabilities embedding) = Inr df'"
    by simp
  from df_append_returns [OF this]
  have rws: "rows df' = rows df @
          [[CStr (strip out_name), CStr max_name, CInt max_class,
            CStr (name2 @ '','' @ name1 @ '','' @ name0),
            CStr (str_join '','' (map str_nat ?t))]
           @ map CNum probabilities @ map CNum embedding]"
    and cols: "columns df' = columns df"
    and len: "5 + length probabilities + length embedding = length (columns df)"
    unfolding length_new_row by (simp_all add: new_row_def n3)
  have fin: "columns df = final_columns \<longrightarrow>
          length probabilities + length embedding = 31 + 1536
          \<and> (length probabilities = 31 \<longleftrightarrow> length embedding = 1536)"
    using len by (auto simp: length_final_columns)
  from name run top1 class_name_returns [OF top1_name] l3 n2 n1 n0 ord rws cols len fin
  show ?thesis by blast
qed

section \<open>The concrete run, evaluated\<close>

lemma example_top1: "max_location_class example_probabilities = Inr 29"
  by code_simp

lemma example_top3: "max_3_location_classes example_probabilities = [28, 30, 29]"
  by code_simp

lemma example_names:
  "class_name example_env 29 = Inr ''class29''"
  "max_3_location_names example_env [28, 30, 29] = Inr ''class29,class30,class28''"
  "str_join '','' (map str_nat [28, 30, 29]) = ''28,30,29''"
  by code_simp+

lemma example_numerals: "str_nat 28 = ''28''" "str_nat 29 = ''29''" "str_nat 30 = ''30''"
  by code_simp+

lemma example_lengths:
  "length example_probabilities = 31" "length example_embedding = 1536"
  by (simp_all add: example_probabilities_def example_embedding_def)

lemma example_strips:
  "strip ''out'' = ''out''" "strip ''cell1\<newline>'' = ''cell1''"
  "strip ''r1.png'' = ''r1.png''" "strip ''b1.png'' = ''b1.png''"
  "strip ''cell2\<newline>'' = ''cell2''" "strip ''r2.png'' = ''r2.png''"
  "strip ''missing.png'' = ''missing.png''"
  by code_simp+

lemma example_create_csv: "config_get example_config ''create_csv'' = Inr (VBool True)"
  by (simp add: config_get_def example_config_def)

lemma example_first_row:
  assumes "columns df = final_columns"
  shows "process_set example_config example_env ()
           ''r1.png,y1.png,b1.png,g1.png,out,cell1\<newline>'' df w
         = (Inr (df\<lparr>rows := rows df @ [example_row ''cell1'']\<rparr>),
            w\<lparr>imreads := imreads w @ [''r1.png'', ''b1.png''],
              made_dirs := made_dirs w @ [''out''],
              model_runs := model_runs w @ [''out/cell1''],
              log_lines := log_lines w @
                [(INFO, Text ''- Saved results for cell1, locations predicted [class29,class30,class28]'')]\<rparr>)"
proof -
  have fields: "str_split (CHR '','') ''r1.png,y1.png,b1.png,g1.png,out,cell1\<newline>''
     = [''r1.png'', ''y1.png'', ''b1.png'', ''g1.png'', ''out'', ''cell1\<newline>'']"
    by simp
  have cells: "load_cell_data example_config example_env
      [''r1.png'', ''y1.png'', ''b1.png'', ''g1.png'', ''out'', ''cell1\<newline>''] w
     = (Inr [[''r1.png''], [''b1.png'']], w\<lparr>imreads := imreads w @ [''r1.png'', ''b1.png'']\<rparr>)"
    by (simp add: load_cell_data_def read_channel_def example_channels py_nth_def
          example_strips imread_io_def example_env_def bind_def lift_def return_def)
  have run: "run_model_io example_env () [[''r1.png''], [''b1.png'']] ''out/cell1'' w'
     = (Inr (example_embedding, example_probabilities),
        w'\<lparr>model_runs := model_runs w' @ [''out/cell1'']\<rparr>)" for w' :: "(string, int) world"
    by (simp add: run_model_io_def example_env_def)
  have stem: "os_path_join ''out'' [''cell1''] = ''out/cell1''"
    by (simp add: os_path_join_def path_join2_def startswith_def)
  have mk: "makedirs_io example_env ''out'' w = (Inr (), w\<lparr>made_dirs := made_dirs w @ [''out'']\<rparr>)"
    by (simp add: makedirs_io_def example_env_def)
  have cells': "load_cell_data example_config example_env
      [''r1.png'', ''y1.png'', ''b1.png'', ''g1.png'', ''out'', ''cell1\<newline>'']
      (w\<lparr>made_dirs := made_dirs w @ [''out'']\<rparr>)
     = (Inr [[''r1.png''], [''b1.png'']],
        w\<lparr>made_dirs := made_dirs w @ [''out''], imreads := imreads w @ [''r1.png'', ''b1.png'']\<rparr>)"
    by (simp add: load_cell_data_def read_channel_def example_channels py_nth_def
          example_strips imread_io_def example_env_def bind_def lift_def return_def)
  have app: "df_append df (new_row ''cell1\<newline>'' ''class29'' 29 ''class29,class30,class28''
                [28, 30, 29] example_probabilities example_embedding)
      = Inr (df\<lparr>rows := rows df @ [example_row ''cell1'']\<rparr>)"
    by (simp add: df_append_def new_row_def example_row_def example_strips example_numerals
          example_lengths assms length_final_columns)
  show ?thesis
    unfolding process_set_def Let_def fields
    by (simp add: bind_def lift_def return_def py_nth_def example_strips mk cells' stem run
          example_top1 example_top3 example_names example_create_csv app log_to_def)
qed

theorem csv_row_appended_witness:
  "config_get example_config ''create_csv'' = Inr (VBool True)
   \<and> truthy (VBool True)
   \<and> fst (process_set example_config example_env ()
             ''r1.png,y1.png,b1.png,g1.png,out,cell1\<newline>'' example_table example_world)
       = Inr (example_table\<lparr>rows := rows example_table @ [example_row ''cell1'']\<rparr>)
   \<and> (\<exists>out_name embedding probabilities max_class max_name name2 name1 name0.
         py_nth (str_split (CHR '','') ''r1.png,y1.png,b1.png,g1.png,out,cell1\<newline>'') 5
           = Inr out_name
       \<and> rows (example_table\<lparr>rows := rows example_table @ [example_row ''cell1'']\<rparr>)
           = rows example_table @
              [[CStr (strip out_name), CStr max_name, CInt max_class,
                CStr (name2 @ '','' @ name1 @ '','' @ name0),
                CStr (str_join '','' (map str_nat (max_3_location_classes probabilities)))]
               @ map CNum probabilities @ map CNum embedding]
       \<and> length probabilities + length embedding = 31 + 1536)"
proof -
  have cols: "columns example_table = final_columns" by (simp add: example_table_def)
  note run = example_first_row [OF cols, where w = example_world]
  have t: "truthy (VBool True)" by simp
  from csv_row_appended [OF example_create_csv t run] cols
  have "\<exists>out_name embedding probabilities max_class max_name name2 name1 name0.
         py_nth (str_split (CHR '','') ''r1.png,y1.png,b1.png,g1.png,out,cell1\<newline>'') 5
           = Inr out_name
       \<and> rows (example_table\<lparr>rows := rows example_table @ [example_row ''cell1'']\<rparr>)
           = rows example_table @
              [[CStr (strip out_name), CStr max_name, CInt max_class,
                CStr (name2 @ '','' @ name1 @ '','' @ name0),
                CStr (str_join '','' (map str_nat (max_3_location_classes probabilities)))]
               @ map CNum probabilities @ map CNum embedding]
       \<and> length probabilities + length embedding = 31 + 1536"
    by blast
  moreover have "fst (process_set example_config example_env ()
             ''r1.png,y1.png,b1.png,g1.png,out,cell1\<newline>'' example_table example_world)
       = Inr (example_table\<lparr>rows := rows example_table @ [example_row ''cell1'']\<rparr>)"
    unfolding run by simp
  ultimately show ?thesis using example_create_csv t by blast
qed

section \<open>Properties of the loop and of the handler\<close>

lemma process_list_prefix:
  assumes "process_list config env model pre df w = (Inr df1, w1)"
  shows "process_list config env model (pre @ rest) df w
           = process_list config env model rest df1 w1"
  using assms
proof (induction pre arbitrary: df w)
  case Nil
  then show ?case by (simp add: return_def)
next
  case (Cons line pre)
  show ?case
  proof (cases "is_data_line line")
    case False
    with Cons show ?thesis by simp
  next
    case True
    with Cons.prems have b: "bind (process_set config env model line df)
        (\<lambda>df'. process_list config env model pre df') w = (Inr df1, w1)"
      by simp
    from b obtain df' w' where
      s: "process_set config env model line df w = (Inr df', w')"
      and p: "process_list config env model pre df' w' = (Inr df1, w1)"
      by (rule bind_returns)
    from True s Cons.IH [OF p] show ?thesis by (simp add: bind_Inr)
  qed
qed

lemma process_list_aborts:
  assumes "process_list config env model pre df w = (Inr df1, w1)"
    and "is_data_line curr_set"
    and "process_set config env model curr_set df1 w1 = (Inl e, w2)"
  shows "process_list config env model (pre @ curr_set # rest) df w = (Inl e, w2)"
  unfolding process_list_prefix [OF assms(1)]
  using assms(2,3) by (simp add: bind_Inl)

lemma try_block_aborts:
  assumes "prepare config env w = (Inr (model, df), w0)"
    and "path_list env = Some (Inr (pre @ curr_set # rest))"
    and "process_list config env model pre df w0 = (Inr df1, w1)"
    and "is_data_line curr_set"
    and "process_set config env model curr_set df1 w1 = (Inl e, w2)"
  shows "try_block config env w = (Inl e, w2)"
proof -
  note pl = process_list_aborts [OF assms(3,4,5), where rest = rest]
  have "process_manifest config env model df w0 = (Inl e, w2)"
    unfolding process_manifest_def assms(2) by (simp add: bind_def pl)
  with assms(1) show ?thesis by (simp add: try_block_def bind_Inr)
qed

lemma keeps_errors_prepare: "keeps (\<lambda>w. error_lines (log_lines w)) (prepare config env)"
  by (intro keeps_prepare) (simp_all add: error_lines_append_other)

lemma keeps_errors_process_list:
  "keeps (\<lambda>w. error_lines (log_lines w)) (process_list config env model lines df)"
  by (intro keeps_process_list) (simp_all add: error_lines_append_other)

lemma keeps_errors_process_set:
  "keeps (\<lambda>w. error_lines (log_lines w)) (process_set config env model curr_set df)"
  by (intro keeps_process_set) (simp_all add: error_lines_append_other)

lemma keeps_csv_prepare: "keeps result_csv (prepare config env)"
  by (intro keeps_prepare) simp_all

lemma keeps_csv_process_list: "keeps result_csv (process_list config env model lines df)"
  by (intro keeps_process_list) simp_all

lemma keeps_csv_process_set: "keeps result_csv (process_set config env model curr_set df)"
  by (intro keeps_process_set) simp_all

text \<open>
  C4. Let the preparation (lines 54 to 96) and the manifest lines before row \<open>k\<close> raise
  nothing, and let processing row \<open>k\<close> raise \<open>e\<close>, leaving the world \<open>w2\<close>. Then the
  run ends in \<open>w2\<close> with one more log record, the error \<^verbatim>\<open>"- " + str(e)\<close>: whatever lines
  follow row \<open>k\<close>, none of them is processed; the log gains exactly one error record; and
  \<^verbatim>\<open>df.to_csv\<close> does not run, so \<^verbatim>\<open>result.csv\<close> is not written, not even for the rows
  processed before.
\<close>

theorem exception_in_row_aborts_batch:
  assumes "prepare config env w = (Inr (model, df), w0)"
    and "path_list env = Some (Inr (pre @ curr_set # rest))"
    and "process_list config env model pre df w0 = (Inr df1, w1)"
    and "is_data_line curr_set"
    and "process_set config env model curr_set df1 w1 = (Inl e, w2)"
  shows "main config env w = w2\<lparr>log_lines := log_lines w2 @ [(ERROR, Text (''- '' @ str_exn e))]\<rparr>
       \<and> error_lines (log_lines (main config env w))
           = error_lines (log_lines w) @ [(ERROR, Text (''- '' @ str_exn e))]
       \<and> result_csv (main config env w) = result_csv w
       \<and> imreads (main config env w) = imreads w2
       \<and> model_runs (main config env w) = model_runs w2
       \<and> process_list config env model (pre @ curr_set # rest) df w0
           = process_list config env model (pre @ [curr_set]) df w0"
proof -
  have same: "process_list config env model (pre @ curr_set # rest) df w0
           = process_list config env model (pre @ [curr_set]) df w0"
    unfolding process_list_aborts [OF assms(3,4,5)] ..
  have m: "main config env w
             = w2\<lparr>log_lines := log_lines w2 @ [(ERROR, Text (''- '' @ str_exn e))]\<rparr>"
    unfolding main_def try_block_aborts [OF assms] by (simp add: log_to_def)
  have "error_lines (log_lines w2) = error_lines (log_lines w1)"
    using keeps_errors_process_set assms(5) by (rule keeps_result)
  also have "\<dots> = error_lines (log_lines w0)"
    using keeps_errors_process_list assms(3) by (rule keeps_result)
  also have "\<dots> = error_lines (log_lines w)"
    using keeps_errors_prepare assms(1) by (rule keeps_result)
  finally have errs: "error_lines (log_lines w2) = error_lines (log_lines w)" .
  have "result_csv w2 = result_csv w1"
    using keeps_csv_process_set assms(5) by (rule keeps_result)
  also have "\<dots> = result_csv w0"
    using keeps_csv_process_list assms(3) by (rule keeps_result)
  also have "\<dots> = result_csv w"
    using keeps_csv_prepare assms(1) by (rule keeps_result)
  finally have csv: "result_csv w2 = result_csv w" .
  show ?thesis unfolding m using errs csv same by (simp add: error_lines_def)
qed

lemma try_block_without_manifest:
  assumes "path_list env = None"
  shows "try_block config env = bind (prepare config env) (\<lambda>ready. return ())"
proof -
  have "process_manifest config env m d = return ()" for m d
    by (rule ext) (simp add: process_manifest_def assms)
  then show ?thesis by (simp add: try_block_def)
qed

lemma main_frame_without_manifest:
  assumes "path_list env = None"
    and "\<And>w v. g (w\<lparr>requests := v\<rparr>) = g w" and "\<And>w v. g (w\<lparr>files := v\<rparr>) = g w"
    and "\<And>w v. g (w\<lparr>log_lines := v\<rparr>) = g w"
  shows "g (main config env w) = g w"
proof -
  obtain r w' where t: "try_block config env w = (r, w')" by (cases "try_block config env w")
  have "keeps g (try_block config env)"
    unfolding try_block_without_manifest [OF assms(1)]
    by (intro keeps_intros keeps_prepare assms(2,3)) (simp add: assms(4))
  from keeps_result [OF this t] have "g w' = g w" .
  with t assms(4) show ?thesis by (cases r) (simp_all add: main_def log_to_def)
qed

text \<open>
  C10. When \<^verbatim>\<open>./path_list.csv\<close> does not exist, lines 99 to 144 return at once and change
  nothing, in CSV mode too. So the whole run reads no image, makes no directory, runs the
  model on no row and does not write \<^verbatim>\<open>result.csv\<close>; and when the preparation (lines 54
  to 96) raised nothing, no exception reaches the handler and no error is logged.
\<close>

theorem missing_manifest_is_no_error:
  assumes "path_list env = None"
  shows "process_manifest config env model df w = (Inr (), w)
       \<and> imreads (main config env w) = imreads w
       \<and> made_dirs (main config env w) = made_dirs w
       \<and> model_runs (main config env w) = model_runs w
       \<and> result_csv (main config env w) = result_csv w
       \<and> (\<forall>ready w0. prepare config env w = (Inr ready, w0) \<longrightarrow>
             try_block config env w = (Inr (), w0) \<and> main config env w = w0
             \<and> error_lines (log_lines (main config env w)) = error_lines (log_lines w))"
proof -
  have 0: "process_manifest config env model df w = (Inr (), w)"
    by (simp add: process_manifest_def assms return_def)
  have 1: "imreads (main config env w) = imreads w"
    by (rule main_frame_without_manifest [OF assms, where g = imreads]) simp_all
  have 2: "made_dirs (main config env w) = made_dirs w"
    by (rule main_frame_without_manifest [OF assms, where g = made_dirs]) simp_all
  have 3: "model_runs (main config env w) = model_runs w"
    by (rule main_frame_without_manifest [OF assms, where g = model_runs]) simp_all
  have 4: "result_csv (main config env w) = result_csv w"
    by (rule main_frame_without_manifest [OF assms, where g = result_csv]) simp_all
  have 5: "try_block config env w = (Inr (), w0) \<and> main config env w = w0
             \<and> error_lines (log_lines (main config env w)) = error_lines (log_lines w)"
    if p: "prepare config env w = (Inr ready, w0)" for ready w0
  proof -
    have tr: "try_block config env w = (Inr (), w0)"
      unfolding try_block_without_manifest [OF assms] by (simp add: bind_def p return_def)
    then have mn: "main config env w = w0" by (simp add: main_def)
    from keeps_result [OF keeps_errors_prepare p]
    have "error_lines (log_lines w0) = error_lines (log_lines w)" .
    with tr mn show ?thesis by simp
  qed
  from 0 1 2 3 4 5 show ?thesis by blast
qed

lemma example_update_model: "example_config ''update_model'' = Some (VBool False)"
  by (simp add: example_config_def defaults_def)

lemma example_files_present:
  "files example_world ''models/rb/mae_contrast_supcon_model/classifier.pth'' \<noteq> None"
  "files example_world ''models/rb/mae_contrast_supcon_model/encoder.pth'' \<noteq> None"
  by (simp_all add: example_world_def)

lemma example_prepare:
  assumes "load_model env = load_model example_env"
  shows "prepare example_config env example_world = (Inr ((), example_table), example_world)"
proof -
  have t: "\<not> truthy (VBool False)" by simp
  have p: "provision example_config env example_world
      = (Inr (''models/rb/mae_contrast_supcon_model/encoder.pth'',
              ''models/rb/mae_contrast_supcon_model/classifier.pth''), example_world)"
    using example_model_files(1) example_files_present(1) example_model_files(2)
      example_files_present(2) example_update_model t
    by (rule provision_models_present)
  show ?thesis
    unfolding prepare_def
    by (simp add: bind_def p load_selected_model_def lift_def return_def example_model_files
          assms example_create_csv example_table_def)
       (simp add: example_env_def)
qed

lemma example_data_lines:
  "\<not> is_data_line ''# r,y,b,g,out_dir,out_name\<newline>''"
  "is_data_line ''r1.png,y1.png,b1.png,g1.png,out,cell1\<newline>''"
  "\<not> is_data_line ''\<newline>''"
  "is_data_line ''r2.png,y2.png,missing.png,g2.png,out,cell2\<newline>''"
  by code_simp+

lemma example_bad_row:
  "process_set example_config example_env ()
     ''r2.png,y2.png,missing.png,g2.png,out,cell2\<newline>'' df w
   = (Inl (Exception ''FileNotFoundError'' ''No such file: missing.png''),
      w\<lparr>imreads := imreads w @ [''r2.png'', ''missing.png''],
        made_dirs := made_dirs w @ [''out'']\<rparr>)"
proof -
  have fields: "str_split (CHR '','') ''r2.png,y2.png,missing.png,g2.png,out,cell2\<newline>''
     = [''r2.png'', ''y2.png'', ''missing.png'', ''g2.png'', ''out'', ''cell2\<newline>'']"
    by simp
  have mk: "makedirs_io example_env ''out'' w = (Inr (), w\<lparr>made_dirs := made_dirs w @ [''out'']\<rparr>)"
    by (simp add: makedirs_io_def example_env_def)
  have cells: "load_cell_data example_config example_env
      [''r2.png'', ''y2.png'', ''missing.png'', ''g2.png'', ''out'', ''cell2\<newline>'']
      (w\<lparr>made_dirs := made_dirs w @ [''out'']\<rparr>)
     = (Inl (Exception ''FileNotFoundError'' ''No such file: missing.png''),
        w\<lparr>made_dirs := made_dirs w @ [''out''],
          imreads := imreads w @ [''r2.png'', ''missing.png'']\<rparr>)"
    by (simp add: load_cell_data_def read_channel_def example_channels py_nth_def
          example_strips imread_io_def example_env_def bind_def lift_def return_def)
  show ?thesis
    unfolding process_set_def Let_def fields
    by (simp add: bind_def lift_def py_nth_def example_strips mk cells)
qed

lemma example_rows_before:
  "process_list example_config example_env ()
     [''# r,y,b,g,out_dir,out_name\<newline>'', ''r1.png,y1.png,b1.png,g1.png,out,cell1\<newline>'',
      ''\<newline>''] example_table example_world
   = (Inr (example_table\<lparr>rows := rows example_table @ [example_row ''cell1'']\<rparr>),
      example_world\<lparr>imreads := imreads example_world @ [''r1.png'', ''b1.png''],
        made_dirs := made_dirs example_world @ [''out''],
        model_runs := model_runs example_world @ [''out/cell1''],
        log_lines := log_lines example_world @
          [(INFO, Text ''- Saved results for cell1, locations predicted [class29,class30,class28]'')]\<rparr>)"
proof -
  have cols: "columns example_table = final_columns" by (simp add: example_table_def)
  show ?thesis
    by (simp add: example_data_lines bind_def example_first_row [OF cols] return_def)
qed

theorem exception_in_row_aborts_batch_witness:
  "prepare example_config example_env example_world = (Inr ((), example_table), example_world)
   \<and> path_list example_env
       = Some (Inr ([''# r,y,b,g,out_dir,out_name\<newline>'',
                     ''r1.png,y1.png,b1.png,g1.png,out,cell1\<newline>'', ''\<newline>'']
                    @ ''r2.png,y2.png,missing.png,g2.png,out,cell2\<newline>''
                    # [''r3.png,y3.png,b3.png,g3.png,out,cell3\<newline>'']))
   \<and> is_data_line ''r2.png,y2.png,missing.png,g2.png,out,cell2\<newline>''
   \<and> error_lines (log_lines (main example_config example_env example_world))
       = [(ERROR, Text ''- No such file: missing.png'')]
   \<and> result_csv (main example_config example_env example_world) = None
   \<and> imreads (main example_config example_env example_world)
       = [''r1.png'', ''b1.png'', ''r2.png'', ''missing.png'']
   \<and> model_runs (main example_config example_env example_world) = [''out/cell1'']"
proof -
  have prep: "prepare example_config example_env example_world
                = (Inr ((), example_table), example_world)"
    by (rule example_prepare) simp
  have man: "path_list example_env
       = Some (Inr ([''# r,y,b,g,out_dir,out_name\<newline>'',
                     ''r1.png,y1.png,b1.png,g1.png,out,cell1\<newline>'', ''\<newline>'']
                    @ ''r2.png,y2.png,missing.png,g2.png,out,cell2\<newline>''
                    # [''r3.png,y3.png,b3.png,g3.png,out,cell3\<newline>'']))"
    by (simp add: example_env_def example_lines_def)
  note claim = exception_in_row_aborts_batch
    [OF prep man example_rows_before example_data_lines(4) example_bad_row]
  from claim have "error_lines (log_lines (main example_config example_env example_world))
       = [(ERROR, Text ''- No such file: missing.png'')]"
    by (simp add: example_world_def error_lines_def)
  moreover from claim have "result_csv (main example_config example_env example_world) = None"
    by (simp add: example_world_def)
  moreover from claim have "imreads (main example_config example_env example_world)
       = [''r1.png'', ''b1.png'', ''r2.png'', ''missing.png'']"
    by (simp add: example_world_def)
  moreover from claim have "model_runs (main example_config example_env example_world)
       = [''out/cell1'']"
    by (simp add: example_world_def)
  ultimately show ?thesis using prep man example_data_lines(4) by blast
qed

theorem missing_manifest_is_no_error_witness:
  "path_list (example_env\<lparr>path_list := None\<rparr>) = None
   \<and> config_get example_config ''create_csv'' = Inr (VBool True)
   \<and> prepare example_config (example_env\<lparr>path_list := None\<rparr>) example_world
       = (Inr ((), example_table), example_world)
   \<and> main example_config (example_env\<lparr>path_list := None\<rparr>) example_world = example_world
   \<and> result_csv (main example_config (example_env\<lparr>path_list := None\<rparr>) example_world) = None"
proof -
  have none: "path_list (example_env\<lparr>path_list := None\<rparr>) = None" by simp
  have prep: "prepare example_config (example_env\<lparr>path_list := None\<rparr>) example_world
                = (Inr ((), example_table), example_world)"
    by (rule example_prepare) simp
  note claim = missing_manifest_is_no_error
    [OF none, where config = example_config and w = example_world]
  from claim prep
  have m: "main example_config (example_env\<lparr>path_list := None\<rparr>) example_world
             = example_world"
    by blast
  from claim have "result_csv (main example_config (example_env\<lparr>path_list := None\<rparr>)
                     example_world) = result_csv example_world"
    by blast
  then have "result_csv (main example_config (example_env\<lparr>path_list := None\<rparr>)
                     example_world) = None"
    by (simp add: example_world_def)
  with none example_create_csv prep m show ?thesis by blast
qed

end
